theory Spec2Isabelle
  imports
    Complex_Main
    "HOL-Library.Char_ord"
    "HOL-Library.List_Lexorder"
    "HOL-Library.Product_Lexorder"
begin

section \<open>Column values\<close>

text \<open>
  The pandas frames of the pipeline hold \<open>float64\<close> columns. A cell is a finite number, one
  of the two infinities, or NaN (which pandas also uses for a missing cell). Finite
  arithmetic is taken exact (a \<open>real\<close>): rounding and overflow are left out, the special
  values are kept, because they are what a division by zero produces. numpy never raises on
  a float division: \<open>x / 0\<close> is \<open>inf\<close>, \<open>-inf\<close> or \<open>nan\<close>. The sign of a zero is not
  modelled: every zero is \<open>+0.0\<close>.
\<close>

datatype float64 = Fin real | PosInf | NegInf | NaN

fun fadd :: "float64 \<Rightarrow> float64 \<Rightarrow> float64" where
  "fadd NaN _ = NaN"
| "fadd _ NaN = NaN"
| "fadd (Fin a) (Fin b) = Fin (a + b)"
| "fadd PosInf NegInf = NaN"
| "fadd NegInf PosInf = NaN"
| "fadd PosInf _ = PosInf"
| "fadd _ PosInf = PosInf"
| "fadd NegInf _ = NegInf"
| "fadd _ NegInf = NegInf"

fun fmul :: "float64 \<Rightarrow> float64 \<Rightarrow> float64" where
  "fmul NaN _ = NaN"
| "fmul _ NaN = NaN"
| "fmul (Fin a) (Fin b) = Fin (a * b)"
| "fmul PosInf (Fin b) = (if b = 0 then NaN else if 0 < b then PosInf else NegInf)"
| "fmul NegInf (Fin b) = (if b = 0 then NaN else if 0 < b then NegInf else PosInf)"
| "fmul (Fin a) PosInf = (if a = 0 then NaN else if 0 < a then PosInf else NegInf)"
| "fmul (Fin a) NegInf = (if a = 0 then NaN else if 0 < a then NegInf else PosInf)"
| "fmul PosInf PosInf = PosInf"
| "fmul NegInf NegInf = PosInf"
| "fmul PosInf NegInf = NegInf"
| "fmul NegInf PosInf = NegInf"

fun fdiv :: "float64 \<Rightarrow> float64 \<Rightarrow> float64" where
  "fdiv NaN _ = NaN"
| "fdiv _ NaN = NaN"
| "fdiv (Fin a) (Fin b) =
     (if b \<noteq> 0 then Fin (a / b)
      else if a = 0 then NaN
      else if 0 < a then PosInf else NegInf)"
| "fdiv (Fin a) PosInf = Fin 0"
| "fdiv (Fin a) NegInf = Fin 0"
| "fdiv PosInf (Fin b) = (if 0 \<le> b then PosInf else NegInf)"
| "fdiv NegInf (Fin b) = (if 0 \<le> b then NegInf else PosInf)"
| "fdiv PosInf _ = NaN"
| "fdiv NegInf _ = NaN"

text \<open>\<open>Series.fillna(v)\<close>: only NaN cells are replaced; an infinity is not a missing value.\<close>

fun fillna :: "float64 \<Rightarrow> float64 \<Rightarrow> float64" where
  "fillna v NaN = v"
| "fillna v x = x"

text \<open>\<open>Series.clip(lo, hi)\<close> with finite bounds: NaN stays NaN, infinities go to the bounds.\<close>

fun clip :: "real \<Rightarrow> real \<Rightarrow> float64 \<Rightarrow> float64" where
  "clip lo hi NaN = NaN"
| "clip lo hi PosInf = Fin hi"
| "clip lo hi NegInf = Fin lo"
| "clip lo hi (Fin x) = Fin (min hi (max lo x))"

text \<open>
  A sum and a mean over cells with \<open>skipna=True\<close> (the pandas default): NaN cells are left
  out; a sum of no cell is 0, a mean of no cell is NaN.
\<close>

definition dropna_cells :: "float64 list \<Rightarrow> float64 list" where
  "dropna_cells xs = filter (\<lambda>x. x \<noteq> NaN) xs"

definition sum_skipna :: "float64 list \<Rightarrow> float64" where
  "sum_skipna xs = foldl fadd (Fin 0) (dropna_cells xs)"

definition mean_skipna :: "float64 list \<Rightarrow> float64" where
  "mean_skipna xs =
     (if dropna_cells xs = [] then NaN
      else fdiv (sum_skipna xs) (Fin (real (length (dropna_cells xs)))))"

section \<open>Derived metric: renewable percentage\<close>

text \<open>
  \<open>_engineer_features\<close> of \<open>danish_energy_ml_pipeline.py\<close>:
  \<^verbatim>\<open>df['renewable_percentage'] = (df['total_renewable_mwh'] / df['consumption_mwh'] * 100).fillna(0)\<close>
  The denominator of the joined record is its \<open>consumption_mwh\<close> column.
\<close>

definition renewable_percentage :: "float64 \<Rightarrow> float64 \<Rightarrow> float64" where
  "renewable_percentage total_renewable_mwh consumption_mwh =
     fillna (Fin 0) (fmul (fdiv total_renewable_mwh consumption_mwh) (Fin 100))"

text \<open>
  \<open>create_demo_dataset\<close> of \<open>simplified_ml_pipeline.py\<close>:
  \<^verbatim>\<open>(self.data['renewable_energy'] / self.data['consumption'] * 100).clip(0, 100)\<close>
\<close>

definition demo_renewable_percentage :: "float64 \<Rightarrow> float64 \<Rightarrow> float64" where
  "demo_renewable_percentage renewable_energy consumption =
     clip 0 100 (fmul (fdiv renewable_energy consumption) (Fin 100))"

section \<open>Hourly rollup and three-way join\<close>

text \<open>
  A timestamp (\<open>datetime64\<close>) is a number of seconds since the epoch;
  \<open>dt.floor('H')\<close> rounds it down to the full hour.
\<close>

type_synonym timestamp = int

definition floor_H :: "timestamp \<Rightarrow> timestamp" where
  "floor_H t = t - t mod 3600"

text \<open>The three input frames, with the columns \<open>_create_merged_dataset\<close> reads.\<close>

record co2_sample =
  co2_datetime :: timestamp
  co2_PriceArea :: string
  CO2Emission :: float64

record renewable_row =
  ren_datetime :: timestamp
  ren_PriceArea :: string
  OffshoreWindLt100MW_MWh :: float64
  OffshoreWindGe100MW_MWh :: float64
  OnshoreWindLt50kW_MWh :: float64
  OnshoreWindGe50kW_MWh :: float64
  SolarPowerLt10kW_MWh :: float64
  SolarPowerGe10Lt40kW_MWh :: float64
  SolarPowerGe40kW_MWh :: float64
  HydroPowerMWh :: float64
  GrossConsumptionMWh :: float64

record price_row =
  price_datetime :: timestamp
  price_PriceArea :: string
  SpotPriceDKK :: float64
  SpotPriceEUR :: float64

text \<open>The join key of all three streams: the columns \<open>['datetime', 'PriceArea']\<close>.\<close>

type_synonym hour_key = "timestamp \<times> string"

definition co2_key :: "co2_sample \<Rightarrow> hour_key" where
  "co2_key r = (floor_H (co2_datetime r), co2_PriceArea r)"

definition renewable_key :: "renewable_row \<Rightarrow> hour_key" where
  "renewable_key r = (ren_datetime r, ren_PriceArea r)"

definition price_key :: "price_row \<Rightarrow> hour_key" where
  "price_key r = (price_datetime r, price_PriceArea r)"

text \<open>
  \<^verbatim>\<open>co2_hourly['hour'] = co2_hourly['datetime'].dt.floor('H')
co2_agg = co2_hourly.groupby(['hour', 'PriceArea']).agg({'CO2Emission': 'mean'}).reset_index()
co2_agg.columns = ['datetime', 'PriceArea', 'co2_emission']\<close>
  \<open>groupby\<close> makes one group per key that occurs, in sorted key order, and \<open>mean\<close>
  skips NaN cells.
\<close>

record co2_hourly =
  hourly_datetime :: timestamp
  hourly_PriceArea :: string
  hourly_co2_emission :: float64

definition hourly_key :: "co2_hourly \<Rightarrow> hour_key" where
  "hourly_key h = (hourly_datetime h, hourly_PriceArea h)"

definition co2_group :: "co2_sample list \<Rightarrow> hour_key \<Rightarrow> float64 list" where
  "co2_group co2_data k = map CO2Emission (filter (\<lambda>r. co2_key r = k) co2_data)"

definition co2_agg :: "co2_sample list \<Rightarrow> co2_hourly list" where
  "co2_agg co2_data =
     map (\<lambda>k. \<lparr>hourly_datetime = fst k, hourly_PriceArea = snd k,
               hourly_co2_emission = mean_skipna (co2_group co2_data k)\<rparr>)
         (sort (remdups (map co2_key co2_data)))"

text \<open>
  \<^verbatim>\<open>renewable_clean['total_renewable_mwh'] = renewable_clean[renewable_cols].sum(axis=1)\<close>
\<close>

definition total_renewable_mwh :: "renewable_row \<Rightarrow> float64" where
  "total_renewable_mwh r =
     sum_skipna [OffshoreWindLt100MW_MWh r, OffshoreWindGe100MW_MWh r,
                 OnshoreWindLt50kW_MWh r, OnshoreWindGe50kW_MWh r,
                 SolarPowerLt10kW_MWh r, SolarPowerGe10Lt40kW_MWh r,
                 SolarPowerGe40kW_MWh r, HydroPowerMWh r]"

text \<open>
  \<^verbatim>\<open>price_danish = self.price_data[self.price_data['PriceArea'].isin(['DK1', 'DK2'])].copy()\<close>
\<close>

definition price_danish :: "price_row list \<Rightarrow> price_row list" where
  "price_danish price_data =
     filter (\<lambda>r. price_PriceArea r \<in> set [''DK1'', ''DK2'']) price_data"

text \<open>
  \<open>DataFrame.merge(how='inner')\<close>: every pair of a left and a right row with equal keys
  gives one row, in the order of the left frame; a key of one side alone gives none.
\<close>

definition merge_inner ::
  "('a \<Rightarrow> 'k) \<Rightarrow> ('b \<Rightarrow> 'k) \<Rightarrow> ('a \<Rightarrow> 'b \<Rightarrow> 'c) \<Rightarrow> 'a list \<Rightarrow> 'b list \<Rightarrow> 'c list" where
  "merge_inner key_left key_right combine left right =
     concat (map (\<lambda>l. map (combine l) (filter (\<lambda>r. key_right r = key_left l) right)) left)"

record co2_renewable_row =
  cr_datetime :: timestamp
  cr_PriceArea :: string
  cr_co2_emission :: float64
  cr_total_renewable_mwh :: float64
  cr_GrossConsumptionMWh :: float64

record merged_row =
  datetime :: timestamp
  PriceArea :: string
  co2_emission :: float64
  merged_total_renewable_mwh :: float64
  spot_price_eur :: float64
  consumption_mwh :: float64

definition co2_renewable_key :: "co2_renewable_row \<Rightarrow> hour_key" where
  "co2_renewable_key m = (cr_datetime m, cr_PriceArea m)"

definition merged_key :: "merged_row \<Rightarrow> hour_key" where
  "merged_key m = (datetime m, PriceArea m)"

definition combine_co2_renewable :: "co2_hourly \<Rightarrow> renewable_row \<Rightarrow> co2_renewable_row" where
  "combine_co2_renewable h r =
     \<lparr>cr_datetime = hourly_datetime h, cr_PriceArea = hourly_PriceArea h,
      cr_co2_emission = hourly_co2_emission h,
      cr_total_renewable_mwh = total_renewable_mwh r,
      cr_GrossConsumptionMWh = GrossConsumptionMWh r\<rparr>"

definition combine_price :: "co2_renewable_row \<Rightarrow> price_row \<Rightarrow> merged_row" where
  "combine_price m p =
     \<lparr>datetime = cr_datetime m, PriceArea = cr_PriceArea m,
      co2_emission = cr_co2_emission m,
      merged_total_renewable_mwh = cr_total_renewable_mwh m,
      spot_price_eur = SpotPriceEUR p,
      consumption_mwh = cr_GrossConsumptionMWh m\<rparr>"

definition create_merged_dataset ::
  "co2_sample list \<Rightarrow> renewable_row list \<Rightarrow> price_row list \<Rightarrow> merged_row list" where
  "create_merged_dataset co2_data renewable_data price_data =
     merge_inner co2_renewable_key price_key combine_price
       (merge_inner hourly_key renewable_key combine_co2_renewable
          (co2_agg co2_data) renewable_data)
       (price_danish price_data)"

text \<open>
  \<open>_engineer_features\<close> adds the column to every row of the merged dataset.
\<close>

definition engineer_renewable_percentage :: "merged_row \<Rightarrow> float64" where
  "engineer_renewable_percentage m =
     renewable_percentage (merged_total_renewable_mwh m) (consumption_mwh m)"


text \<open>A partial hour of three CO2 samples, and two hours of production and price rows.\<close>

definition co2_three_samples :: "co2_sample list" where
  "co2_three_samples =
     [\<lparr>co2_datetime = 3600, co2_PriceArea = ''DK1'', CO2Emission = Fin 100\<rparr>,
      \<lparr>co2_datetime = 3900, co2_PriceArea = ''DK1'', CO2Emission = Fin 110\<rparr>,
      \<lparr>co2_datetime = 4200, co2_PriceArea = ''DK1'', CO2Emission = Fin 120\<rparr>]"

text \<open>
  CO2 samples of three buckets, out of order: four samples of DK1 in the hour 3600 (one of
  them without a value), two of DK2 in the hour 3600 and one of DK1 in the hour 7200.
\<close>

definition co2_three_buckets :: "co2_sample list" where
  "co2_three_buckets =
     [\<lparr>co2_datetime = 7200, co2_PriceArea = ''DK1'', CO2Emission = Fin 300\<rparr>,
      \<lparr>co2_datetime = 3600, co2_PriceArea = ''DK1'', CO2Emission = Fin 100\<rparr>,
      \<lparr>co2_datetime = 3900, co2_PriceArea = ''DK2'', CO2Emission = Fin 50\<rparr>,
      \<lparr>co2_datetime = 3900, co2_PriceArea = ''DK1'', CO2Emission = Fin 110\<rparr>,
      \<lparr>co2_datetime = 4200, co2_PriceArea = ''DK1'', CO2Emission = Fin 120\<rparr>,
      \<lparr>co2_datetime = 4500, co2_PriceArea = ''DK1'', CO2Emission = NaN\<rparr>,
      \<lparr>co2_datetime = 7195, co2_PriceArea = ''DK2'', CO2Emission = Fin 70\<rparr>]"

definition renewable_two_hours :: "renewable_row list" where
  "renewable_two_hours =
     map (\<lambda>t. \<lparr>ren_datetime = t, ren_PriceArea = ''DK1'',
               OffshoreWindLt100MW_MWh = Fin 50, OffshoreWindGe100MW_MWh = Fin 200,
               OnshoreWindLt50kW_MWh = Fin 100, OnshoreWindGe50kW_MWh = Fin 100,
               SolarPowerLt10kW_MWh = Fin 10, SolarPowerGe10Lt40kW_MWh = Fin 10,
               SolarPowerGe40kW_MWh = Fin 10, HydroPowerMWh = Fin 20,
               GrossConsumptionMWh = Fin 1000\<rparr>) [3600, 7200]"

definition price_two_hours :: "price_row list" where
  "price_two_hours =
     map (\<lambda>t. \<lparr>price_datetime = t, price_PriceArea = ''DK1'',
               SpotPriceDKK = Fin 600, SpotPriceEUR = Fin 80\<rparr>) [3600, 7200]"

text \<open>A joined record with 500 MWh of renewable production and a denominator of 0.\<close>

definition merged_zero_denominator :: merged_row where
  "merged_zero_denominator =
     \<lparr>datetime = 3600, PriceArea = ''DK1'', co2_emission = Fin 110,
      merged_total_renewable_mwh = Fin 500, spot_price_eur = Fin 80,
      consumption_mwh = Fin 0\<rparr>"


section \<open>The warehouse and its connection\<close>

text \<open>
  The fact tables of the PostgreSQL warehouse, with the columns that
  \<open>load_data_warehouse.py\<close> reads. The three key columns form the primary key of a fact
  table, so they are never NULL; a measure column is nullable (\<open>None\<close> is SQL NULL).
\<close>

type_synonym fact_key = "int \<times> int \<times> int"

record fact_co2_emissions_row =
  co2_date_key :: int
  co2_time_key :: int
  co2_price_area_key :: int
  co2_emission_g_kwh :: "real option"

record fact_energy_production_row =
  prod_date_key :: int
  prod_time_key :: int
  prod_price_area_key :: int
  prod_renewable_percentage :: "real option"

record fact_electricity_prices_row =
  prices_date_key :: int
  prices_time_key :: int
  prices_price_area_key :: int
  prices_spot_price_eur :: "real option"

text \<open>
  The warehouse: raw staging (of a type the Python code never looks into), the date
  dimension as the list of its \<open>date_key\<close>s, and the three fact tables.
\<close>

record 'raw warehouse =
  raw_staging :: 'raw
  dim_date :: "int list"
  fact_co2_emissions :: "fact_co2_emissions_row list"
  fact_energy_production :: "fact_energy_production_row list"
  fact_electricity_prices :: "fact_electricity_prices_row list"

text \<open>
  A psycopg2 connection: the committed state of the database and the state seen inside the
  open transaction. \<open>self.conn\<close> of the loader is \<open>None\<close> until \<open>connect\<close> has run.
\<close>

record 'raw connection =
  committed :: "'raw warehouse"
  txn :: "'raw warehouse"

datatype db_error = AttributeError | DatabaseError string

definition commit :: "'raw connection \<Rightarrow> 'raw connection" where
  "commit c = c\<lparr>committed := txn c\<rparr>"

definition rollback :: "'raw connection \<Rightarrow> 'raw connection" where
  "rollback c = c\<lparr>txn := committed c\<rparr>"

text \<open>
  A stored SQL function called through \<open>cursor.execute("SELECT f(...)")\<close>: it either raises
  a database error or returns a value and the new state of the open transaction. The SQL
  functions themselves are not part of the Python sources; they are parameters here.
\<close>

type_synonym ('raw, 'r) sql_function = "'raw warehouse \<Rightarrow> db_error + ('raw warehouse \<times> 'r)"

text \<open>
  \<^verbatim>\<open>def load_csv_to_raw_table(self, csv_file_path, table_name, function_name):
    try:
        cursor = self.conn.cursor()
        cursor.execute(f"SELECT {function_name}(%s);", (csv_file_path,))
        rows_loaded = cursor.fetchone()[0]
        self.conn.commit()
        cursor.close()
        return rows_loaded
    except Exception as e:
        if self.conn:
            self.conn.rollback()
        raise\<close>
  With \<open>self.conn = None\<close> the call \<open>self.conn.cursor()\<close> raises \<open>AttributeError\<close>, and the
  handler has nothing to roll back. Closing the cursor and logging do not fail.
\<close>

definition load_csv_to_raw_table ::
  "(string \<Rightarrow> string \<Rightarrow> ('raw, nat) sql_function) \<Rightarrow> 'raw connection option \<Rightarrow>
   string \<Rightarrow> string \<Rightarrow> string \<Rightarrow> (db_error + nat) \<times> 'raw connection option" where
  "load_csv_to_raw_table sql conn csv_file_path table_name function_name =
     (case conn of
        None \<Rightarrow> (Inl AttributeError, None)
      | Some c \<Rightarrow>
          (case sql function_name csv_file_path (txn c) of
             Inl e \<Rightarrow> (Inl e, Some (rollback c))
           | Inr (w, rows_loaded) \<Rightarrow> (Inr rows_loaded, Some (commit (c\<lparr>txn := w\<rparr>)))))"

text \<open>
  \<^verbatim>\<open>def run_etl_pipeline(self):
    try:
        cursor = self.conn.cursor()
        cursor.execute("SELECT core.run_etl_pipeline();")
        result = cursor.fetchone()[0]
        self.conn.commit()
        cursor.close()
        return result
    except Exception as e:
        if self.conn:
            self.conn.rollback()
        raise\<close>
\<close>

definition run_etl_pipeline ::
  "('raw, string) sql_function \<Rightarrow> 'raw connection option \<Rightarrow>
   (db_error + string) \<times> 'raw connection option" where
  "run_etl_pipeline core_run_etl_pipeline conn =
     (case conn of
        None \<Rightarrow> (Inl AttributeError, None)
      | Some c \<Rightarrow>
          (case core_run_etl_pipeline (txn c) of
             Inl e \<Rightarrow> (Inl e, Some (rollback c))
           | Inr (w, result) \<Rightarrow> (Inr result, Some (commit (c\<lparr>txn := w\<rparr>)))))"

section \<open>Data quality checks\<close>

text \<open>The decimal text of a count, as an f-string prints it.\<close>

definition digit_char :: "nat \<Rightarrow> char" where
  "digit_char d = ''0123456789'' ! d"

fun str_nat :: "nat \<Rightarrow> string" where
  "str_nat n = (if n < 10 then [digit_char n] else str_nat (n div 10) @ [digit_char (n mod 10)])"

text \<open>
  The five \<open>SELECT COUNT(*)\<close> queries of \<open>validate_data_quality\<close>. A comparison with NULL
  is not true in SQL, so a NULL measure is in no range count.
  \<^verbatim>\<open>WHERE co2_emission_g_kwh IS NULL
WHERE co2_emission_g_kwh < 0 OR co2_emission_g_kwh > 1000
WHERE renewable_percentage < 0
WHERE spot_price_eur < -1000 OR spot_price_eur > 5000
FROM core.fact_co2_emissions f LEFT JOIN core.dim_date d ON f.date_key = d.date_key
  WHERE d.date_key IS NULL\<close>
\<close>

definition null_co2 :: "'raw warehouse \<Rightarrow> nat" where
  "null_co2 w = length (filter (\<lambda>f. co2_emission_g_kwh f = None) (fact_co2_emissions w))"

definition invalid_co2 :: "'raw warehouse \<Rightarrow> nat" where
  "invalid_co2 w =
     length (filter (\<lambda>f. case co2_emission_g_kwh f of None \<Rightarrow> False
                          | Some v \<Rightarrow> v < 0 \<or> v > 1000) (fact_co2_emissions w))"

definition negative_renewable :: "'raw warehouse \<Rightarrow> nat" where
  "negative_renewable w =
     length (filter (\<lambda>f. case prod_renewable_percentage f of None \<Rightarrow> False
                          | Some v \<Rightarrow> v < 0) (fact_energy_production w))"

definition extreme_prices :: "'raw warehouse \<Rightarrow> nat" where
  "extreme_prices w =
     length (filter (\<lambda>f. case prices_spot_price_eur f of None \<Rightarrow> False
                          | Some v \<Rightarrow> v < - 1000 \<or> v > 5000) (fact_electricity_prices w))"

definition orphaned_co2 :: "'raw warehouse \<Rightarrow> nat" where
  "orphaned_co2 w =
     length (filter (\<lambda>f. co2_date_key f \<notin> set (dim_date w)) (fact_co2_emissions w))"

text \<open>
  \<open>validate_data_quality\<close> returns the list \<open>quality_checks\<close> of five report lines. It
  raises only what the database raises; with tables that exist the queries succeed, and no
  count makes it raise.
\<close>

definition validate_data_quality :: "'raw connection option \<Rightarrow> db_error + string list" where
  "validate_data_quality conn =
     (case conn of
        None \<Rightarrow> Inl AttributeError
      | Some c \<Rightarrow>
          Inr [''Null CO2 values: '' @ str_nat (null_co2 (txn c)),
               ''Invalid CO2 values (outside 0-1000): '' @ str_nat (invalid_co2 (txn c)),
               ''Negative renewable percentages: '' @ str_nat (negative_renewable (txn c)),
               ''Extreme price values: '' @ str_nat (extreme_prices (txn c)),
               ''Orphaned CO2 records (missing date): '' @ str_nat (orphaned_co2 (txn c))])"

text \<open>
  The range check as the specification words it: a renewable percentage outside [0, 100].
\<close>

definition spec_renewable_out_of_range :: "'raw warehouse \<Rightarrow> nat" where
  "spec_renewable_out_of_range w =
     length (filter (\<lambda>f. case prod_renewable_percentage f of None \<Rightarrow> False
                          | Some v \<Rightarrow> v < 0 \<or> v > 100) (fact_energy_production w))"

text \<open>Example warehouses: one CO2 fact of -5 g/kWh, and one production fact of 150 percent.\<close>

definition empty_warehouse :: "unit warehouse" where
  "empty_warehouse =
     \<lparr>raw_staging = (), dim_date = [20240101], fact_co2_emissions = [],
      fact_energy_production = [], fact_electricity_prices = []\<rparr>"

definition warehouse_co2_minus5 :: "unit warehouse" where
  "warehouse_co2_minus5 =
     empty_warehouse\<lparr>fact_co2_emissions :=
       [\<lparr>co2_date_key = 20240101, co2_time_key = 0, co2_price_area_key = 1,
         co2_emission_g_kwh = Some (- 5)\<rparr>]\<rparr>"

definition warehouse_renewable_150 :: "unit warehouse" where
  "warehouse_renewable_150 =
     empty_warehouse\<lparr>fact_energy_production :=
       [\<lparr>prod_date_key = 20240101, prod_time_key = 0, prod_price_area_key = 1,
         prod_renewable_percentage = Some 150\<rparr>]\<rparr>"

definition connected :: "'raw warehouse \<Rightarrow> 'raw connection option" where
  "connected w = Some \<lparr>committed = w, txn = w\<rparr>"

section \<open>The ETL function of the warehouse\<close>

definition co2_fact_key :: "fact_co2_emissions_row \<Rightarrow> fact_key" where
  "co2_fact_key f = (co2_date_key f, co2_time_key f, co2_price_area_key f)"

definition prod_fact_key :: "fact_energy_production_row \<Rightarrow> fact_key" where
  "prod_fact_key f = (prod_date_key f, prod_time_key f, prod_price_area_key f)"

definition prices_fact_key :: "fact_electricity_prices_row \<Rightarrow> fact_key" where
  "prices_fact_key f = (prices_date_key f, prices_time_key f, prices_price_area_key f)"

text \<open>
  Modelled from the spec: the write of one fact row, which the SQL function
  \<open>core.run_etl_pipeline()\<close> performs and which is not among the Python sources. "Each row
  is written keyed by (date_key, hour_key, price_area_key); re-running over an
  already-loaded window replaces prior values for that key rather than duplicating": a row
  whose key is in the table replaces the row of that key, any other row is inserted.
\<close>

definition upsert_row :: "('row \<Rightarrow> fact_key) \<Rightarrow> 'row \<Rightarrow> 'row list \<Rightarrow> 'row list" where
  "upsert_row key r tbl =
     (if key r \<in> key ` set tbl then map (\<lambda>x. if key x = key r then r else x) tbl
      else tbl @ [r])"

text \<open>
  Modelled from the spec: \<open>upsert_facts(fact_rows)\<close>, absent from the Python sources
  like \<open>upsert_row\<close>: the rows of a batch are written one after the other.
\<close>

definition upsert_facts :: "('row \<Rightarrow> fact_key) \<Rightarrow> 'row list \<Rightarrow> 'row list \<Rightarrow> 'row list" where
  "upsert_facts key rows tbl = foldl (\<lambda>t r. upsert_row key r t) tbl rows"

text \<open>
  Modelled from the spec: the SQL function \<open>core.run_etl_pipeline()\<close>, which is not among
  the Python sources. The Aggregator computes the fact rows of the three metric families
  from raw staging (rollup, join, derived metrics: the parameter \<open>facts_of\<close>) and upserts
  them into the three fact tables; it returns a text summary.
\<close>

definition core_run_etl_pipeline ::
  "('raw \<Rightarrow> fact_co2_emissions_row list \<times> fact_energy_production_row list \<times>
            fact_electricity_prices_row list) \<Rightarrow> ('raw, string) sql_function" where
  "core_run_etl_pipeline facts_of w =
     (case facts_of (raw_staging w) of
        (co2_rows, prod_rows, prices_rows) \<Rightarrow>
          Inr (w\<lparr>fact_co2_emissions := upsert_facts co2_fact_key co2_rows (fact_co2_emissions w),
                 fact_energy_production :=
                   upsert_facts prod_fact_key prod_rows (fact_energy_production w),
                 fact_electricity_prices :=
                   upsert_facts prices_fact_key prices_rows (fact_electricity_prices w)\<rparr>,
               ''ETL pipeline completed''))"

text \<open>
  Example: a stored function that fails, one that loads a row, and an Aggregator that
  computes two CO2 facts for the same hour (the later one wins) from any raw staging.
\<close>

definition failing_load :: "string \<Rightarrow> string \<Rightarrow> (unit, nat) sql_function" where
  "failing_load function_name csv_file_path w = Inl (DatabaseError ''could not open file'')"

definition one_row_load :: "string \<Rightarrow> string \<Rightarrow> (unit, nat) sql_function" where
  "one_row_load function_name csv_file_path w =
     Inr (w\<lparr>dim_date := 20240102 # dim_date w\<rparr>, 1)"

definition failing_etl :: "(unit, string) sql_function" where
  "failing_etl w = Inl (DatabaseError ''relation does not exist'')"

definition two_co2_facts ::
  "unit \<Rightarrow> fact_co2_emissions_row list \<times> fact_energy_production_row list \<times>
           fact_electricity_prices_row list" where
  "two_co2_facts raw =
     ([\<lparr>co2_date_key = 20240101, co2_time_key = 0, co2_price_area_key = 1,
        co2_emission_g_kwh = Some 100\<rparr>,
       \<lparr>co2_date_key = 20240101, co2_time_key = 0, co2_price_area_key = 1,
        co2_emission_g_kwh = Some 120\<rparr>], [], [])"

definition warehouse_after_etl :: "unit warehouse" where
  "warehouse_after_etl =
     empty_warehouse\<lparr>fact_co2_emissions :=
       [\<lparr>co2_date_key = 20240101, co2_time_key = 0, co2_price_area_key = 1,
         co2_emission_g_kwh = Some 120\<rparr>]\<rparr>"

definition warehouse_after_load :: "unit warehouse" where
  "warehouse_after_load = empty_warehouse\<lparr>dim_date := [20240102, 20240101]\<rparr>"

text \<open>A connection whose open transaction holds a change that is not committed.\<close>

definition connection_uncommitted :: "unit connection" where
  "connection_uncommitted = \<lparr>committed = empty_warehouse, txn = warehouse_co2_minus5\<rparr>"

definition connection_clean :: "unit connection" where
  "connection_clean = \<lparr>committed = empty_warehouse, txn = empty_warehouse\<rparr>"

section \<open>Extraction from the Energi Data Service\<close>

text \<open>
  A record of the API is a flat JSON object: column names with their values as text.
  \<open>pd.DataFrame(records)\<close> and the CSV file written from it hold the same rows in the
  same order, so a frame and the content of a CSV file are both a list of records.
\<close>

type_synonym raw_record = "(string \<times> string) list"

text \<open>What \<open>session.get\<close>, \<open>raise_for_status\<close> and \<open>response.json\<close> can raise.\<close>

datatype http_error = ConnectionError | Timeout | HTTPError nat | JSONDecodeError

record request =
  req_url :: string
  req_params :: "(string \<times> string) list"

record summary =
  extraction_date :: string
  date_range :: string
  electricity_balance :: nat
  co2_emissions :: nat
  renewable_energy :: nat
  electricity_prices :: nat
  total_records :: nat

datatype file_content = Csv "raw_record list" | Json "raw_record list" | SummaryJson summary

text \<open>
  The world outside the extractor: the answers the API gives to the coming requests, in
  order (a failure or the list of records of the response), the requests sent so far, and
  the files of the output directory. When the answers run out the API is unreachable.
\<close>

record world =
  upstream :: "(http_error + raw_record list) list"
  requests :: "request list"
  files :: "string \<rightharpoonup> file_content"

definition session_get :: "request \<Rightarrow> world \<Rightarrow> (http_error + raw_record list) \<times> world" where
  "session_get rq w =
     (case upstream w of
        [] \<Rightarrow> (Inl ConnectionError, w\<lparr>requests := requests w @ [rq]\<rparr>)
      | answer # rest \<Rightarrow> (answer, w\<lparr>upstream := rest, requests := requests w @ [rq]\<rparr>))"

definition base_api_url :: string where
  "base_api_url = ''https://api.energidataservice.dk''"

text \<open>\<open>os.path.join(output_dir, name)\<close> for a relative \<open>name\<close>.\<close>

definition path_join :: "string \<Rightarrow> string \<Rightarrow> string" where
  "path_join dir name =
     (if dir = [] then name
      else if last dir = CHR ''/'' then dir @ name
      else dir @ ''/'' @ name)"

definition dataset_request :: "string \<Rightarrow> string \<Rightarrow> string \<Rightarrow> request" where
  "dataset_request dataset start_date end_date =
     \<lparr>req_url = base_api_url @ ''/dataset/'' @ dataset,
      req_params = [(''start'', start_date), (''end'', end_date), (''format'', ''json'')]\<rparr>"

text \<open>
  The four \<open>extract_...\<close> methods have one body, up to the dataset and the file name:
  \<^verbatim>\<open>try:
    response = self.session.get(url, params=params, timeout=60)
    response.raise_for_status()
    data = response.json()
    records = data.get('records', [])
    if records:
        df = pd.DataFrame(records)
        output_file = os.path.join(self.output_dir, 'co2_emissions_raw.csv')
        df.to_csv(output_file, index=False)
        return df
    else:
        return pd.DataFrame()
except Exception as e:
    logger.error(f"Error extracting CO2 emissions data: {e}")
    return pd.DataFrame()\<close>
  There is one request and no loop around it; \<open>to_csv\<close> opens the file for writing, which
  replaces its content. Writing a file does not fail here.
\<close>

definition extract_dataset ::
  "string \<Rightarrow> string \<Rightarrow> string \<Rightarrow> string \<Rightarrow> string \<Rightarrow> world \<Rightarrow> raw_record list \<times> world" where
  "extract_dataset dataset csv_name output_dir start_date end_date w =
     (case session_get (dataset_request dataset start_date end_date) w of
        (Inl e, w') \<Rightarrow> ([], w')
      | (Inr records, w') \<Rightarrow>
          if records \<noteq> []
          then (records, w'\<lparr>files := (files w')(path_join output_dir csv_name \<mapsto> Csv records)\<rparr>)
          else ([], w'))"

definition extract_electricity_data ::
  "string \<Rightarrow> string \<Rightarrow> string \<Rightarrow> world \<Rightarrow> raw_record list \<times> world" where
  "extract_electricity_data = extract_dataset ''ElectricityBalance'' ''electricity_balance_raw.csv''"

definition extract_co2_emissions_data ::
  "string \<Rightarrow> string \<Rightarrow> string \<Rightarrow> world \<Rightarrow> raw_record list \<times> world" where
  "extract_co2_emissions_data = extract_dataset ''CO2Emis'' ''co2_emissions_raw.csv''"

definition extract_renewable_energy_data ::
  "string \<Rightarrow> string \<Rightarrow> string \<Rightarrow> world \<Rightarrow> raw_record list \<times> world" where
  "extract_renewable_energy_data =
     extract_dataset ''ProductionConsumptionSettlement'' ''renewable_energy_raw.csv''"

definition extract_electricity_prices ::
  "string \<Rightarrow> string \<Rightarrow> string \<Rightarrow> world \<Rightarrow> raw_record list \<times> world" where
  "extract_electricity_prices = extract_dataset ''Elspotprices'' ''electricity_prices_raw.csv''"

text \<open>
  \<open>get_dataset_list\<close>: one request for the metadata; the answer is saved and its
  \<open>result\<close> list returned, a failure gives the empty list.
\<close>

definition meta_request :: request where
  "meta_request = \<lparr>req_url = base_api_url @ ''/meta/dataset'', req_params = []\<rparr>"

definition get_dataset_list :: "string \<Rightarrow> world \<Rightarrow> raw_record list \<times> world" where
  "get_dataset_list output_dir w =
     (case session_get meta_request w of
        (Inl e, w') \<Rightarrow> ([], w')
      | (Inr result, w') \<Rightarrow>
          (result,
           w'\<lparr>files := (files w')(path_join output_dir ''available_datasets.json'' \<mapsto> Json result)\<rparr>))"

text \<open>
  \<open>run_full_extraction(start_date, end_date)\<close>. The dates are the strings the caller
  passed; nothing parses or compares them. \<open>now\<close> is \<open>datetime.now().isoformat()\<close>.
\<close>

definition run_full_extraction ::
  "string \<Rightarrow> string \<Rightarrow> string \<Rightarrow> string \<Rightarrow> world \<Rightarrow> summary \<times> world" where
  "run_full_extraction now output_dir start_date end_date w =
     (let (datasets, w0) = get_dataset_list output_dir w;
          (electricity_df, w1) = extract_electricity_data output_dir start_date end_date w0;
          (co2_df, w2) = extract_co2_emissions_data output_dir start_date end_date w1;
          (renewable_df, w3) = extract_renewable_energy_data output_dir start_date end_date w2;
          (prices_df, w4) = extract_electricity_prices output_dir start_date end_date w3;
          summary =
            \<lparr>extraction_date = now,
             date_range = start_date @ '' to '' @ end_date,
             electricity_balance = length electricity_df,
             co2_emissions = length co2_df,
             renewable_energy = length renewable_df,
             electricity_prices = length prices_df,
             total_records = length electricity_df + length co2_df + length renewable_df +
                             length prices_df\<rparr>
      in (summary,
          w4\<lparr>files := (files w4)(path_join output_dir ''extraction_summary.json'' \<mapsto>
                                   SummaryJson summary)\<rparr>))"








definition world_unreachable :: world where
  "world_unreachable = \<lparr>upstream = [], requests = [], files = Map.empty\<rparr>"



section \<open>High-price events\<close>

text \<open>
  \<open>analyze_electricity_prices\<close> of \<open>data_quality_assessment.py\<close>:
  \<^verbatim>\<open>high_prices_dkk = df[df['SpotPriceDKK'] > df['SpotPriceDKK'].quantile(0.95)]\<close>
  The frame is the price CSV, with rows of type \<open>price_row\<close>. A price cell read from the
  CSV is a finite number or missing; the quantile is taken over the finite cells.
\<close>

definition finite_cells :: "float64 list \<Rightarrow> real list" where
  "finite_cells xs = concat (map (\<lambda>x. case x of Fin v \<Rightarrow> [v] | _ \<Rightarrow> []) xs)"

text \<open>
  \<open>Series.quantile(q)\<close> with the default linear interpolation: on the sorted values
  \<open>a\<close> of length \<open>n\<close> the position is \<open>h = (n - 1) * q\<close>, and the result lies between
  \<open>a[floor h]\<close> and the next value, at the fraction \<open>h - floor h\<close>. Without values the
  quantile is NaN.
\<close>

definition quantile :: "real \<Rightarrow> real list \<Rightarrow> float64" where
  "quantile q vals =
     (if vals = [] then NaN
      else let a = sort vals;
               h = real (length a - 1) * q;
               lo = nat \<lfloor>h\<rfloor>;
               hi = min (lo + 1) (length a - 1)
           in Fin (a ! lo + (h - real lo) * (a ! hi - a ! lo)))"

text \<open>The comparison \<open>x > y\<close> of two cells: false when one of them is NaN.\<close>

fun fgt :: "float64 \<Rightarrow> float64 \<Rightarrow> bool" where
  "fgt NaN _ = False"
| "fgt _ NaN = False"
| "fgt (Fin a) (Fin b) = (b < a)"
| "fgt PosInf PosInf = False"
| "fgt PosInf _ = True"
| "fgt _ PosInf = False"
| "fgt NegInf _ = False"
| "fgt _ NegInf = True"

definition high_prices_dkk :: "price_row list \<Rightarrow> price_row list" where
  "high_prices_dkk df =
     filter (\<lambda>r. fgt (SpotPriceDKK r) (quantile (95 / 100) (finite_cells (map SpotPriceDKK df)))) df"

text \<open>
  The flag as the specification words it: the spot price in EUR is above the mean price of
  the same price area over the trailing window (the rows of that area whose time is within
  \<open>window\<close> seconds up to the row's own time), times the multiplier.
\<close>

definition spec_rolling_baseline :: "int \<Rightarrow> price_row list \<Rightarrow> price_row \<Rightarrow> float64" where
  "spec_rolling_baseline window rows r =
     mean_skipna (map SpotPriceEUR
       (filter (\<lambda>x. price_PriceArea x = price_PriceArea r \<and>
                     price_datetime r - window < price_datetime x \<and>
                     price_datetime x \<le> price_datetime r) rows))"

definition spec_is_price_spike :: "int \<Rightarrow> real \<Rightarrow> price_row list \<Rightarrow> price_row \<Rightarrow> bool" where
  "spec_is_price_spike window spike_multiplier rows r =
     fgt (SpotPriceEUR r) (fmul (spec_rolling_baseline window rows r) (Fin spike_multiplier))"

text \<open>Example: two hours of prices in two areas, the prices of DK2 ten times those of DK1.\<close>

definition price_at :: "timestamp \<Rightarrow> string \<Rightarrow> real \<Rightarrow> price_row" where
  "price_at t area eur =
     \<lparr>price_datetime = t, price_PriceArea = area,
      SpotPriceDKK = Fin (eur * 15 / 2), SpotPriceEUR = Fin eur\<rparr>"

definition prices_two_areas :: "price_row list" where
  "prices_two_areas =
     [price_at 0 ''DK1'' 1, price_at 3600 ''DK1'' 2, price_at 0 ''DK2'' 10, price_at 3600 ''DK2'' 20]"

section \<open>Renewable percentage: results\<close>

lemma renewable_percentage_nonzero:
  "p \<noteq> 0 \<Longrightarrow> renewable_percentage (Fin r) (Fin p) = Fin (r / p * 100)"
  by (simp add: renewable_percentage_def)

lemma renewable_percentage_example:
  "renewable_percentage (Fin 500) (Fin 1000) = Fin 50"
  by (simp add: renewable_percentage_def)

lemma renewable_percentage_zero_zero:
  "renewable_percentage (Fin 0) (Fin 0) = Fin 0"
  by (simp add: renewable_percentage_def)

lemma demo_renewable_percentage_zero_production:
  "demo_renewable_percentage (Fin 500) (Fin 0) = Fin 100"
  by (simp add: demo_renewable_percentage_def)

text \<open>
  Claim C1. The renewable percentage of a joined record is
  \<open>total_renewable_mwh / total_production_mwh * 100\<close>, and is exactly 0 whenever the
  denominator is 0. The code reaches 0 only through \<open>fillna(0)\<close>, which replaces the NaN of
  \<open>0 / 0\<close>; a positive numerator over a zero denominator is \<open>inf\<close>, which \<open>fillna\<close> keeps:
  with 500 MWh renewable and a denominator of 0 the result is \<open>inf\<close>, not 0.
\<close>

theorem renewable_percentage_zero_production:
  "engineer_renewable_percentage merged_zero_denominator = PosInf \<and>
   renewable_percentage (Fin 500) (Fin 0) = PosInf"
  by (simp add: engineer_renewable_percentage_def merged_zero_denominator_def
        renewable_percentage_def)

section \<open>Hourly rollup: results\<close>

lemma foldl_fadd_Fin: "foldl fadd (Fin a) (map Fin vs) = Fin (a + sum_list vs)"
  by (induction vs arbitrary: a) (simp_all add: add.assoc)

lemma hourly_key_co2_agg: "map hourly_key (co2_agg d) = sort (remdups (map co2_key d))"
  by (simp add: co2_agg_def hourly_key_def comp_def)

lemma co2_agg_value:
  "h \<in> set (co2_agg d) \<Longrightarrow> hourly_co2_emission h = mean_skipna (co2_group d (hourly_key h))"
  by (auto simp: co2_agg_def hourly_key_def)

lemma co2_agg_keys: "hourly_key ` set (co2_agg d) = co2_key ` set d"
proof -
  have "hourly_key ` set (co2_agg d) = set (map hourly_key (co2_agg d))" by simp
  also have "\<dots> = co2_key ` set d" by (simp only: hourly_key_co2_agg) simp
  finally show ?thesis .
qed

lemma co2_key_three_samples: "co2_key ` set co2_three_samples = {(3600, ''DK1'')}"
  by (simp add: co2_three_samples_def co2_key_def floor_H_def)

lemma floor_H_eq_iff: "floor_H t = T \<longleftrightarrow> T mod 3600 = 0 \<and> T \<le> t \<and> t < T + 3600"
proof
  assume a: "floor_H t = T"
  have m: "0 \<le> t mod 3600" "t mod 3600 < 3600" by simp_all
  have "T = 3600 * (t div 3600)"
    using a by (simp add: floor_H_def minus_mod_eq_mult_div)
  then have "T mod 3600 = 0" by simp
  moreover have "T \<le> t" "t < T + 3600" using a m by (simp_all add: floor_H_def)
  ultimately show "T mod 3600 = 0 \<and> T \<le> t \<and> t < T + 3600" by simp
next
  assume b: "T mod 3600 = 0 \<and> T \<le> t \<and> t < T + 3600"
  then obtain k where k: "T = 3600 * k" by (auto simp: mod_eq_0_iff_dvd)
  have "t = 3600 * k + (t - T)" using k by simp
  moreover have "0 \<le> t - T" "t - T < 3600" using b by simp_all
  ultimately have "t div 3600 = k" by (rule int_div_pos_eq)
  then have "3600 * (t div 3600) = T" using k by simp
  then show "floor_H t = T" by (simp add: floor_H_def minus_mod_eq_mult_div)
qed

lemma mean_skipna_present:
  assumes "filter (\<lambda>x. x \<noteq> NaN) xs = map Fin vs"
  shows "mean_skipna xs = (if vs = [] then NaN else Fin (sum_list vs / real (length vs)))"
proof -
  have d: "dropna_cells xs = map Fin vs" using assms by (simp add: dropna_cells_def)
  show ?thesis
    by (simp add: mean_skipna_def sum_skipna_def d foldl_fadd_Fin)
qed

lemma co2_group_bucket:
  assumes "T mod 3600 = 0"
  shows "co2_group d (T, area) =
     map CO2Emission
       (filter (\<lambda>r. T \<le> co2_datetime r \<and> co2_datetime r < T + 3600 \<and> co2_PriceArea r = area) d)"
proof -
  have "co2_key r = (T, area) \<longleftrightarrow>
        T \<le> co2_datetime r \<and> co2_datetime r < T + 3600 \<and> co2_PriceArea r = area" for r
    using assms by (simp add: co2_key_def floor_H_eq_iff)
  then show ?thesis by (simp add: co2_group_def)
qed

lemma co2_agg_hour_aligned:
  assumes "h \<in> set (co2_agg d)"
  shows "hourly_datetime h mod 3600 = 0"
proof -
  from assms have "hourly_key h \<in> hourly_key ` set (co2_agg d)" by (rule imageI)
  then have "hourly_key h \<in> co2_key ` set d" by (simp only: co2_agg_keys)
  then obtain r where "hourly_key h = co2_key r" by (rule imageE)
  then have "hourly_datetime h = floor_H (co2_datetime r)"
    by (simp add: hourly_key_def co2_key_def)
  then have "floor_H (co2_datetime r) = hourly_datetime h" by simp
  then show ?thesis by (simp only: floor_H_eq_iff)
qed

lemma co2_three_buckets_keys:
  "map hourly_key (co2_agg co2_three_buckets) = [(3600, ''DK1''), (3600, ''DK2''), (7200, ''DK1'')]"
  by (simp add: hourly_key_co2_agg co2_three_buckets_def co2_key_def floor_H_def)

text \<open>
  Claim C3. The hourly rollup groups the 5-minute CO2 records by (hour, price area). The
  output has one row per key and every row starts on a full hour. For a full hour \<open>T\<close>
  and an area there is an output row exactly when some input record of that area has its
  time in \<open>[T, T + 3600)\<close>: an hour bucket without samples gives no row, zero-filled or
  otherwise. The value of a row is the arithmetic mean of the intensities of exactly the
  input records of its area whose time lies in its hour, whatever their number (twelve
  samples or fewer); cells without a value are skipped, and a bucket whose cells all lack
  a value gives NaN.
\<close>

theorem co2_agg_hourly_mean:
  "distinct (map (\<lambda>h. (hourly_datetime h, hourly_PriceArea h)) (co2_agg d)) \<and>
   (\<forall>h \<in> set (co2_agg d). hourly_datetime h mod 3600 = 0) \<and>
   (\<forall>T area. T mod 3600 = 0 \<longrightarrow>
      ((\<exists>h \<in> set (co2_agg d). hourly_datetime h = T \<and> hourly_PriceArea h = area) \<longleftrightarrow>
       (\<exists>r \<in> set d. T \<le> co2_datetime r \<and> co2_datetime r < T + 3600 \<and> co2_PriceArea r = area))) \<and>
   (\<forall>h \<in> set (co2_agg d). \<forall>vs.
      filter (\<lambda>x. x \<noteq> NaN)
        (map CO2Emission
           (filter (\<lambda>r. hourly_datetime h \<le> co2_datetime r \<and>
                         co2_datetime r < hourly_datetime h + 3600 \<and>
                         co2_PriceArea r = hourly_PriceArea h) d)) = map Fin vs \<longrightarrow>
      hourly_co2_emission h = (if vs = [] then NaN else Fin (sum_list vs / real (length vs))))"
proof (intro conjI ballI allI impI)
  have "map (\<lambda>h. (hourly_datetime h, hourly_PriceArea h)) (co2_agg d) = map hourly_key (co2_agg d)"
    by (simp add: hourly_key_def)
  then show "distinct (map (\<lambda>h. (hourly_datetime h, hourly_PriceArea h)) (co2_agg d))"
    by (simp only: hourly_key_co2_agg) simp
next
  fix h assume "h \<in> set (co2_agg d)"
  then show "hourly_datetime h mod 3600 = 0" by (rule co2_agg_hour_aligned)
next
  fix T :: int and area assume T: "T mod 3600 = 0"
  have "(\<exists>h \<in> set (co2_agg d). hourly_datetime h = T \<and> hourly_PriceArea h = area) \<longleftrightarrow>
        (T, area) \<in> hourly_key ` set (co2_agg d)"
    by (auto simp: hourly_key_def image_iff)
  also have "\<dots> \<longleftrightarrow> (T, area) \<in> co2_key ` set d" by (simp only: co2_agg_keys)
  also have "\<dots> \<longleftrightarrow> (\<exists>r \<in> set d. floor_H (co2_datetime r) = T \<and> co2_PriceArea r = area)"
    by (auto simp: co2_key_def image_iff)
  also have "\<dots> \<longleftrightarrow> (\<exists>r \<in> set d. T \<le> co2_datetime r \<and> co2_datetime r < T + 3600 \<and> co2_PriceArea r = area)"
    using T by (simp add: floor_H_eq_iff)
  finally show "(\<exists>h \<in> set (co2_agg d). hourly_datetime h = T \<and> hourly_PriceArea h = area) \<longleftrightarrow>
       (\<exists>r \<in> set d. T \<le> co2_datetime r \<and> co2_datetime r < T + 3600 \<and> co2_PriceArea r = area)" .
next
  fix h vs
  assume h: "h \<in> set (co2_agg d)"
    and g: "filter (\<lambda>x. x \<noteq> NaN)
        (map CO2Emission
           (filter (\<lambda>r. hourly_datetime h \<le> co2_datetime r \<and>
                         co2_datetime r < hourly_datetime h + 3600 \<and>
                         co2_PriceArea r = hourly_PriceArea h) d)) = map Fin vs"
  have al: "hourly_datetime h mod 3600 = 0" using h by (rule co2_agg_hour_aligned)
  have "hourly_co2_emission h = mean_skipna (co2_group d (hourly_key h))"
    using h by (rule co2_agg_value)
  also have "co2_group d (hourly_key h) =
     map CO2Emission
       (filter (\<lambda>r. hourly_datetime h \<le> co2_datetime r \<and>
                     co2_datetime r < hourly_datetime h + 3600 \<and>
                     co2_PriceArea r = hourly_PriceArea h) d)"
    unfolding hourly_key_def using al by (rule co2_group_bucket)
  also have "mean_skipna \<dots> = (if vs = [] then NaN else Fin (sum_list vs / real (length vs)))"
    using g by (rule mean_skipna_present)
  finally show "hourly_co2_emission h = (if vs = [] then NaN else Fin (sum_list vs / real (length vs)))" .
qed

text \<open>
  Seven samples in three buckets: the hour 3600 of DK1 averages 100, 110 and 120 to 110
  (its fourth sample has no value), the hour 3600 of DK2 averages 50 and 70 to 60, and the
  single sample of the hour 7200 of DK1 gives 300.
\<close>

theorem co2_agg_hourly_mean_witness:
  "co2_agg co2_three_buckets =
     [\<lparr>hourly_datetime = 3600, hourly_PriceArea = ''DK1'', hourly_co2_emission = Fin 110\<rparr>,
      \<lparr>hourly_datetime = 3600, hourly_PriceArea = ''DK2'', hourly_co2_emission = Fin 60\<rparr>,
      \<lparr>hourly_datetime = 7200, hourly_PriceArea = ''DK1'', hourly_co2_emission = Fin 300\<rparr>]"
proof -
  note inst = co2_agg_hourly_mean [of co2_three_buckets, THEN conjunct2, THEN conjunct2,
      THEN conjunct2, rule_format]
  from co2_three_buckets_keys obtain h1 h2 h3
    where l: "co2_agg co2_three_buckets = [h1, h2, h3]"
      and k1: "hourly_key h1 = (3600, ''DK1'')"
      and k2: "hourly_key h2 = (3600, ''DK2'')"
      and k3: "hourly_key h3 = (7200, ''DK1'')"
    by (auto simp: map_eq_Cons_conv)
  have f1: "hourly_datetime h1 = 3600" "hourly_PriceArea h1 = ''DK1''"
    using k1 by (simp_all add: hourly_key_def)
  have f2: "hourly_datetime h2 = 3600" "hourly_PriceArea h2 = ''DK2''"
    using k2 by (simp_all add: hourly_key_def)
  have f3: "hourly_datetime h3 = 7200" "hourly_PriceArea h3 = ''DK1''"
    using k3 by (simp_all add: hourly_key_def)
  have m1: "h1 \<in> set (co2_agg co2_three_buckets)" by (simp add: l)
  have m2: "h2 \<in> set (co2_agg co2_three_buckets)" by (simp add: l)
  have m3: "h3 \<in> set (co2_agg co2_three_buckets)" by (simp add: l)
  have g1: "filter (\<lambda>x. x \<noteq> NaN)
        (map CO2Emission
           (filter (\<lambda>r. hourly_datetime h1 \<le> co2_datetime r \<and>
                         co2_datetime r < hourly_datetime h1 + 3600 \<and>
                         co2_PriceArea r = hourly_PriceArea h1) co2_three_buckets)) =
      map Fin [100, 110, 120]"
    by (simp add: f1 co2_three_buckets_def)
  have g2: "filter (\<lambda>x. x \<noteq> NaN)
        (map CO2Emission
           (filter (\<lambda>r. hourly_datetime h2 \<le> co2_datetime r \<and>
                         co2_datetime r < hourly_datetime h2 + 3600 \<and>
                         co2_PriceArea r = hourly_PriceArea h2) co2_three_buckets)) =
      map Fin [50, 70]"
    by (simp add: f2 co2_three_buckets_def)
  have g3: "filter (\<lambda>x. x \<noteq> NaN)
        (map CO2Emission
           (filter (\<lambda>r. hourly_datetime h3 \<le> co2_datetime r \<and>
                         co2_datetime r < hourly_datetime h3 + 3600 \<and>
                         co2_PriceArea r = hourly_PriceArea h3) co2_three_buckets)) =
      map Fin [300]"
    by (simp add: f3 co2_three_buckets_def)
  have v1: "hourly_co2_emission h1 = Fin 110" using inst [OF m1 g1] by simp
  have v2: "hourly_co2_emission h2 = Fin 60" using inst [OF m2 g2] by simp
  have v3: "hourly_co2_emission h3 = Fin 300" using inst [OF m3 g3] by simp
  have e1: "h1 = \<lparr>hourly_datetime = 3600, hourly_PriceArea = ''DK1'', hourly_co2_emission = Fin 110\<rparr>"
    using f1 v1 by (cases h1) simp
  have e2: "h2 = \<lparr>hourly_datetime = 3600, hourly_PriceArea = ''DK2'', hourly_co2_emission = Fin 60\<rparr>"
    using f2 v2 by (cases h2) simp
  have e3: "h3 = \<lparr>hourly_datetime = 7200, hourly_PriceArea = ''DK1'', hourly_co2_emission = Fin 300\<rparr>"
    using f3 v3 by (cases h3) simp
  show ?thesis by (simp only: l e1 e2 e3)
qed

section \<open>Three-way join: results\<close>

lemma set_merge_inner:
  "set (merge_inner kl kr f L R) = {f l r | l r. l \<in> set L \<and> r \<in> set R \<and> kr r = kl l}"
  by (auto simp: merge_inner_def)

lemma in_merge_innerI:
  "l \<in> set L \<Longrightarrow> r \<in> set R \<Longrightarrow> kr r = kl l \<Longrightarrow> f l r \<in> set (merge_inner kl kr f L R)"
  by (auto simp: set_merge_inner)

lemma co2_renewable_key_combine: "co2_renewable_key (combine_co2_renewable h r) = hourly_key h"
  by (simp add: co2_renewable_key_def combine_co2_renewable_def hourly_key_def)

lemma merged_key_combine: "merged_key (combine_price m p) = co2_renewable_key m"
  by (simp add: merged_key_def combine_price_def co2_renewable_key_def)

text \<open>
  Claim C2. The merged dataset has a row with key \<open>k\<close> exactly when \<open>k\<close> is a key of
  the hourly CO2 stream, of the production stream and of the price stream (the Danish price
  rows the code passes to the join): a key that one of the three streams lacks gives no
  row, and no row is padded with missing values.
\<close>

theorem merged_rows_strict_inner_join:
  "(\<exists>m \<in> set (create_merged_dataset co2_data renewable_data price_data). merged_key m = k) \<longleftrightarrow>
     k \<in> co2_key ` set co2_data \<and> k \<in> renewable_key ` set renewable_data \<and>
     k \<in> price_key ` set (price_danish price_data)"
  (is "?L \<longleftrightarrow> ?R")
proof
  assume ?L
  then obtain h r p where "h \<in> set (co2_agg co2_data)" "r \<in> set renewable_data"
    "p \<in> set (price_danish price_data)" "renewable_key r = hourly_key h"
    "price_key p = hourly_key h" "k = hourly_key h"
    by (auto simp: create_merged_dataset_def set_merge_inner co2_renewable_key_combine merged_key_combine)
  then show ?R using co2_agg_keys [of co2_data] by (metis imageI)
next
  assume R: ?R
  then have "k \<in> hourly_key ` set (co2_agg co2_data)"
    by (simp add: co2_agg_keys)
  then obtain h where h: "h \<in> set (co2_agg co2_data)" "hourly_key h = k"
    by blast
  from R obtain r where r: "r \<in> set renewable_data" "renewable_key r = k" by auto
  from R obtain p where p: "p \<in> set (price_danish price_data)" "price_key p = k" by auto
  let ?m = "combine_price (combine_co2_renewable h r) p"
  have rk: "renewable_key r = hourly_key h" using h r by simp
  have cr: "combine_co2_renewable h r \<in>
          set (merge_inner hourly_key renewable_key combine_co2_renewable
                 (co2_agg co2_data) renewable_data)"
    using h(1) r(1) rk by (rule in_merge_innerI)
  have pk: "price_key p = co2_renewable_key (combine_co2_renewable h r)"
    using p h by (simp add: co2_renewable_key_combine)
  have "?m \<in> set (create_merged_dataset co2_data renewable_data price_data)"
    unfolding create_merged_dataset_def
    using cr p(1) pk by (rule in_merge_innerI)
  moreover have "merged_key ?m = k"
    by (simp add: merged_key_combine co2_renewable_key_combine h)
  ultimately show ?L by blast
qed

text \<open>
  With CO2 samples for the hour 3600 only and production and price rows for the hours 3600
  and 7200, the hour 3600 is joined and the hour 7200 gives no row.
\<close>

theorem merged_rows_strict_inner_join_witness:
  "(\<exists>m \<in> set (create_merged_dataset co2_three_samples renewable_two_hours price_two_hours).
      merged_key m = (3600, ''DK1'')) \<and>
   \<not> (\<exists>m \<in> set (create_merged_dataset co2_three_samples renewable_two_hours price_two_hours).
      merged_key m = (7200, ''DK1''))"
proof -
  have r: "renewable_key ` set renewable_two_hours = {(3600, ''DK1''), (7200, ''DK1'')}"
    by (simp add: renewable_two_hours_def renewable_key_def)
  have p: "price_key ` set (price_danish price_two_hours) = {(3600, ''DK1''), (7200, ''DK1'')}"
    by (simp add: price_two_hours_def price_danish_def price_key_def)
  have a: "(\<exists>m \<in> set (create_merged_dataset co2_three_samples renewable_two_hours price_two_hours).
      merged_key m = (3600, ''DK1''))"
    unfolding merged_rows_strict_inner_join [of co2_three_samples renewable_two_hours price_two_hours "(3600, ''DK1'')"]
    by (simp only: co2_key_three_samples r p) simp
  have b: "\<not> (\<exists>m \<in> set (create_merged_dataset co2_three_samples renewable_two_hours price_two_hours).
      merged_key m = (7200, ''DK1''))"
    unfolding merged_rows_strict_inner_join [of co2_three_samples renewable_two_hours price_two_hours "(7200, ''DK1'')"]
    by (simp only: co2_key_three_samples r p) simp
  from a b show ?thesis by (rule conjI)
qed

section \<open>Data quality checks: results\<close>

lemma length_filter_disj:
  "(\<And>x. x \<in> set xs \<Longrightarrow> \<not> (P x \<and> Q x)) \<Longrightarrow>
   length (filter (\<lambda>x. P x \<or> Q x) xs) = length (filter P xs) + length (filter Q xs)"
  by (induction xs) auto

lemma str_nat_digit: "n < 10 \<Longrightarrow> str_nat n = [digit_char n]"
  by simp

lemma counts_co2_minus5:
  "null_co2 warehouse_co2_minus5 = 0" "invalid_co2 warehouse_co2_minus5 = 1"
  "negative_renewable warehouse_co2_minus5 = 0" "extreme_prices warehouse_co2_minus5 = 0"
  "orphaned_co2 warehouse_co2_minus5 = 0"
  by (simp_all add: warehouse_co2_minus5_def empty_warehouse_def null_co2_def invalid_co2_def
        negative_renewable_def extreme_prices_def orphaned_co2_def)

text \<open>
  Claim C4, as the code has it. On a connected loader the quality check always returns a
  report of five lines, each a check name with its violation count, and never raises
  because of what it counts: NULL CO2 values, CO2 intensities outside [0, 1000], negative
  renewable percentages, spot prices outside [-1000, 5000] EUR, and CO2 facts whose
  \<open>date_key\<close> is not in the date dimension. The renewable check has no upper bound: the
  rows outside [0, 100] are the counted negative ones plus the uncounted ones above 100.
\<close>

theorem validate_data_quality_report:
  "validate_data_quality (Some c) =
     Inr [''Null CO2 values: '' @ str_nat (null_co2 (txn c)),
          ''Invalid CO2 values (outside 0-1000): '' @ str_nat (invalid_co2 (txn c)),
          ''Negative renewable percentages: '' @ str_nat (negative_renewable (txn c)),
          ''Extreme price values: '' @ str_nat (extreme_prices (txn c)),
          ''Orphaned CO2 records (missing date): '' @ str_nat (orphaned_co2 (txn c))] \<and>
   null_co2 (txn c) =
     length (filter (\<lambda>f. co2_emission_g_kwh f = None) (fact_co2_emissions (txn c))) \<and>
   invalid_co2 (txn c) =
     length (filter (\<lambda>f. \<exists>v. co2_emission_g_kwh f = Some v \<and> v \<notin> {0..1000})
               (fact_co2_emissions (txn c))) \<and>
   negative_renewable (txn c) =
     length (filter (\<lambda>f. \<exists>v. prod_renewable_percentage f = Some v \<and> v < 0)
               (fact_energy_production (txn c))) \<and>
   spec_renewable_out_of_range (txn c) =
     negative_renewable (txn c) +
     length (filter (\<lambda>f. \<exists>v. prod_renewable_percentage f = Some v \<and> 100 < v)
               (fact_energy_production (txn c))) \<and>
   extreme_prices (txn c) =
     length (filter (\<lambda>f. \<exists>v. prices_spot_price_eur f = Some v \<and> v \<notin> {- 1000..5000})
               (fact_electricity_prices (txn c))) \<and>
   orphaned_co2 (txn c) =
     length (filter (\<lambda>f. co2_date_key f \<notin> set (dim_date (txn c))) (fact_co2_emissions (txn c)))"
proof (intro conjI)
  show "validate_data_quality (Some c) =
     Inr [''Null CO2 values: '' @ str_nat (null_co2 (txn c)),
          ''Invalid CO2 values (outside 0-1000): '' @ str_nat (invalid_co2 (txn c)),
          ''Negative renewable percentages: '' @ str_nat (negative_renewable (txn c)),
          ''Extreme price values: '' @ str_nat (extreme_prices (txn c)),
          ''Orphaned CO2 records (missing date): '' @ str_nat (orphaned_co2 (txn c))]"
    by (simp add: validate_data_quality_def)
  show "null_co2 (txn c) =
     length (filter (\<lambda>f. co2_emission_g_kwh f = None) (fact_co2_emissions (txn c)))"
    by (simp add: null_co2_def)
  show "invalid_co2 (txn c) =
     length (filter (\<lambda>f. \<exists>v. co2_emission_g_kwh f = Some v \<and> v \<notin> {0..1000})
               (fact_co2_emissions (txn c)))"
    unfolding invalid_co2_def
    by (rule arg_cong [where f = length], rule filter_cong) (auto split: option.splits)
  show nr: "negative_renewable (txn c) =
     length (filter (\<lambda>f. \<exists>v. prod_renewable_percentage f = Some v \<and> v < 0)
               (fact_energy_production (txn c)))"
    unfolding negative_renewable_def
    by (rule arg_cong [where f = length], rule filter_cong) (auto split: option.splits)
  have "spec_renewable_out_of_range (txn c) =
     length (filter (\<lambda>f. (\<exists>v. prod_renewable_percentage f = Some v \<and> v < 0) \<or>
                          (\<exists>v. prod_renewable_percentage f = Some v \<and> 100 < v))
               (fact_energy_production (txn c)))"
    unfolding spec_renewable_out_of_range_def
    by (rule arg_cong [where f = length], rule filter_cong) (auto split: option.splits)
  also have "\<dots> = length (filter (\<lambda>f. \<exists>v. prod_renewable_percentage f = Some v \<and> v < 0)
               (fact_energy_production (txn c))) +
     length (filter (\<lambda>f. \<exists>v. prod_renewable_percentage f = Some v \<and> 100 < v)
               (fact_energy_production (txn c)))"
    by (rule length_filter_disj) auto
  finally show "spec_renewable_out_of_range (txn c) =
     negative_renewable (txn c) +
     length (filter (\<lambda>f. \<exists>v. prod_renewable_percentage f = Some v \<and> 100 < v)
               (fact_energy_production (txn c)))"
    by (simp only: nr)
  show "extreme_prices (txn c) =
     length (filter (\<lambda>f. \<exists>v. prices_spot_price_eur f = Some v \<and> v \<notin> {- 1000..5000})
               (fact_electricity_prices (txn c)))"
    unfolding extreme_prices_def
    by (rule arg_cong [where f = length], rule filter_cong) (auto split: option.splits)
  show "orphaned_co2 (txn c) =
     length (filter (\<lambda>f. co2_date_key f \<notin> set (dim_date (txn c))) (fact_co2_emissions (txn c)))"
    by (simp add: orphaned_co2_def)
qed

text \<open>A CO2 intensity of -5 is counted as one range violation; the report is returned.\<close>

theorem validate_data_quality_report_witness:
  "validate_data_quality (connected warehouse_co2_minus5) =
     Inr [''Null CO2 values: 0'', ''Invalid CO2 values (outside 0-1000): 1'',
          ''Negative renewable percentages: 0'', ''Extreme price values: 0'',
          ''Orphaned CO2 records (missing date): 0'']"
  using validate_data_quality_report [of "\<lparr>committed = warehouse_co2_minus5, txn = warehouse_co2_minus5\<rparr>", THEN conjunct1]
  by (simp add: connected_def counts_co2_minus5 digit_char_def)

text \<open>
  Claim C4 as stated asks for a range check of the renewable percentage in [0, 100]. A
  production fact of 150 percent is outside that range and the report counts no violation.
\<close>

theorem renewable_above_100_not_counted:
  "validate_data_quality (connected warehouse_renewable_150) =
     Inr [''Null CO2 values: 0'', ''Invalid CO2 values (outside 0-1000): 0'',
          ''Negative renewable percentages: 0'', ''Extreme price values: 0'',
          ''Orphaned CO2 records (missing date): 0''] \<and>
   spec_renewable_out_of_range warehouse_renewable_150 = 1"
  by (simp add: validate_data_quality_def connected_def warehouse_renewable_150_def empty_warehouse_def
        null_co2_def invalid_co2_def negative_renewable_def extreme_prices_def orphaned_co2_def
        spec_renewable_out_of_range_def digit_char_def)

section \<open>Transactions of the loader: results\<close>

lemma committed_rollback: "committed (rollback c) = committed c" "txn (rollback c) = committed c"
  by (simp_all add: rollback_def)

lemma committed_commit: "committed (commit (c\<lparr>txn := w\<rparr>)) = w" "txn (commit (c\<lparr>txn := w\<rparr>)) = w"
  by (simp_all add: commit_def)

lemma run_etl_two_co2_facts:
  "run_etl_pipeline (core_run_etl_pipeline two_co2_facts) (Some connection_clean) =
     (Inr ''ETL pipeline completed'', connected warehouse_after_etl)"
  by (simp add: run_etl_pipeline_def core_run_etl_pipeline_def two_co2_facts_def
        connection_clean_def connected_def warehouse_after_etl_def empty_warehouse_def
        upsert_facts_def upsert_row_def co2_fact_key_def commit_def)

lemma load_fails:
  "load_csv_to_raw_table failing_load (Some connection_uncommitted) ''raw_data/co2_emissions_raw.csv''
     ''raw.co2_emissions'' ''raw.load_co2_emissions_from_csv'' =
   (Inl (DatabaseError ''could not open file''), connected empty_warehouse)"
  by (simp add: load_csv_to_raw_table_def failing_load_def connection_uncommitted_def
        connected_def rollback_def)

lemma load_succeeds:
  "load_csv_to_raw_table one_row_load (Some connection_clean) ''raw_data/co2_emissions_raw.csv''
     ''raw.co2_emissions'' ''raw.load_co2_emissions_from_csv'' =
   (Inr 1, connected warehouse_after_load)"
  by (simp add: load_csv_to_raw_table_def one_row_load_def connection_clean_def
        connected_def commit_def warehouse_after_load_def empty_warehouse_def)

lemma etl_fails:
  "run_etl_pipeline failing_etl (Some connection_uncommitted) =
   (Inl (DatabaseError ''relation does not exist''), connected empty_warehouse)"
  by (simp add: run_etl_pipeline_def failing_etl_def connection_uncommitted_def
        connected_def rollback_def)

text \<open>
  Claim C10. In \<open>load_csv_to_raw_table\<close> and in \<open>run_etl_pipeline\<close>, an exception of the
  stored function is re-raised after the open transaction has been rolled back: the
  connection is left with its committed state unchanged and with nothing pending. Only a
  call that succeeds commits, and then the committed state is the state the stored function
  produced. Without a connection the call fails with nothing to roll back.
\<close>

theorem failed_call_rolls_back:
  "(load_csv_to_raw_table sql None csv_file_path table_name function_name = (Inl AttributeError, None)) \<and>
   (run_etl_pipeline etl None = (Inl AttributeError, None)) \<and>
   (\<forall>e conn'. load_csv_to_raw_table sql (Some c) csv_file_path table_name function_name = (Inl e, conn') \<longrightarrow>
        sql function_name csv_file_path (txn c) = Inl e \<and>
        (\<exists>c'. conn' = Some c' \<and> committed c' = committed c \<and> txn c' = committed c)) \<and>
   (\<forall>n conn'. load_csv_to_raw_table sql (Some c) csv_file_path table_name function_name = (Inr n, conn') \<longrightarrow>
        (\<exists>w c'. sql function_name csv_file_path (txn c) = Inr (w, n) \<and>
                conn' = Some c' \<and> committed c' = w \<and> txn c' = w)) \<and>
   (\<forall>e conn'. run_etl_pipeline etl (Some c) = (Inl e, conn') \<longrightarrow>
        etl (txn c) = Inl e \<and>
        (\<exists>c'. conn' = Some c' \<and> committed c' = committed c \<and> txn c' = committed c)) \<and>
   (\<forall>r conn'. run_etl_pipeline etl (Some c) = (Inr r, conn') \<longrightarrow>
        (\<exists>w c'. etl (txn c) = Inr (w, r) \<and> conn' = Some c' \<and> committed c' = w \<and> txn c' = w))"
proof (intro conjI allI impI)
  show "load_csv_to_raw_table sql None csv_file_path table_name function_name = (Inl AttributeError, None)"
    by (simp add: load_csv_to_raw_table_def)
  show "run_etl_pipeline etl None = (Inl AttributeError, None)"
    by (simp add: run_etl_pipeline_def)
next
  fix e conn'
  assume a: "load_csv_to_raw_table sql (Some c) csv_file_path table_name function_name = (Inl e, conn')"
  then show "sql function_name csv_file_path (txn c) = Inl e"
    by (auto simp: load_csv_to_raw_table_def split: sum.splits prod.splits)
  from a have "conn' = Some (rollback c)"
    by (auto simp: load_csv_to_raw_table_def split: sum.splits prod.splits)
  then show "\<exists>c'. conn' = Some c' \<and> committed c' = committed c \<and> txn c' = committed c"
    by (simp add: committed_rollback)
next
  fix n conn'
  assume a: "load_csv_to_raw_table sql (Some c) csv_file_path table_name function_name = (Inr n, conn')"
  then obtain w where w: "sql function_name csv_file_path (txn c) = Inr (w, n)"
    "conn' = Some (commit (c\<lparr>txn := w\<rparr>))"
    by (auto simp: load_csv_to_raw_table_def split: sum.splits prod.splits)
  then show "\<exists>w c'. sql function_name csv_file_path (txn c) = Inr (w, n) \<and>
                conn' = Some c' \<and> committed c' = w \<and> txn c' = w"
    by (simp add: committed_commit)
next
  fix e conn'
  assume a: "run_etl_pipeline etl (Some c) = (Inl e, conn')"
  then show "etl (txn c) = Inl e"
    by (auto simp: run_etl_pipeline_def split: sum.splits prod.splits)
  from a have "conn' = Some (rollback c)"
    by (auto simp: run_etl_pipeline_def split: sum.splits prod.splits)
  then show "\<exists>c'. conn' = Some c' \<and> committed c' = committed c \<and> txn c' = committed c"
    by (simp add: committed_rollback)
next
  fix r conn'
  assume a: "run_etl_pipeline etl (Some c) = (Inr r, conn')"
  then obtain w where w: "etl (txn c) = Inr (w, r)" "conn' = Some (commit (c\<lparr>txn := w\<rparr>))"
    by (auto simp: run_etl_pipeline_def split: sum.splits prod.splits)
  then show "\<exists>w c'. etl (txn c) = Inr (w, r) \<and> conn' = Some c' \<and> committed c' = w \<and> txn c' = w"
    by (simp add: committed_commit)
qed

text \<open>
  A failing load and a failing ETL run on a connection with an uncommitted change leave
  the committed warehouse as it was; a successful load and a successful ETL run commit.
\<close>

theorem failed_call_rolls_back_witness:
  "load_csv_to_raw_table failing_load (Some connection_uncommitted) ''raw_data/co2_emissions_raw.csv''
     ''raw.co2_emissions'' ''raw.load_co2_emissions_from_csv'' =
     (Inl (DatabaseError ''could not open file''), connected empty_warehouse) \<and>
   (\<exists>c'. connected empty_warehouse = Some c' \<and> committed c' = committed connection_uncommitted \<and>
         txn c' = committed connection_uncommitted) \<and>
   run_etl_pipeline failing_etl (Some connection_uncommitted) =
     (Inl (DatabaseError ''relation does not exist''), connected empty_warehouse) \<and>
   load_csv_to_raw_table one_row_load (Some connection_clean) ''raw_data/co2_emissions_raw.csv''
     ''raw.co2_emissions'' ''raw.load_co2_emissions_from_csv'' = (Inr 1, connected warehouse_after_load) \<and>
   (\<exists>w c'. one_row_load ''raw.load_co2_emissions_from_csv'' ''raw_data/co2_emissions_raw.csv''
              (txn connection_clean) = Inr (w, 1) \<and>
           connected warehouse_after_load = Some c' \<and> committed c' = w \<and> txn c' = w) \<and>
   run_etl_pipeline (core_run_etl_pipeline two_co2_facts) (Some connection_clean) =
     (Inr ''ETL pipeline completed'', connected warehouse_after_etl) \<and>
   (\<exists>w c'. core_run_etl_pipeline two_co2_facts (txn connection_clean) =
              Inr (w, ''ETL pipeline completed'') \<and>
           connected warehouse_after_etl = Some c' \<and> committed c' = w \<and> txn c' = w)"
proof -
  note f = failed_call_rolls_back [of failing_load "''raw_data/co2_emissions_raw.csv''"
      "''raw.co2_emissions''" "''raw.load_co2_emissions_from_csv''" failing_etl connection_uncommitted]
  note s = failed_call_rolls_back [of one_row_load "''raw_data/co2_emissions_raw.csv''"
      "''raw.co2_emissions''" "''raw.load_co2_emissions_from_csv''"
      "core_run_etl_pipeline two_co2_facts" connection_clean]
  have a: "\<exists>c'. connected empty_warehouse = Some c' \<and> committed c' = committed connection_uncommitted \<and>
         txn c' = committed connection_uncommitted"
    using f [THEN conjunct2, THEN conjunct2, THEN conjunct1, rule_format, OF load_fails]
    by (rule conjunct2)
  have b: "\<exists>w c'. one_row_load ''raw.load_co2_emissions_from_csv'' ''raw_data/co2_emissions_raw.csv''
              (txn connection_clean) = Inr (w, 1) \<and>
           connected warehouse_after_load = Some c' \<and> committed c' = w \<and> txn c' = w"
    using s [THEN conjunct2, THEN conjunct2, THEN conjunct2, THEN conjunct1, rule_format, OF load_succeeds] .
  have c: "\<exists>w c'. core_run_etl_pipeline two_co2_facts (txn connection_clean) =
              Inr (w, ''ETL pipeline completed'') \<and>
           connected warehouse_after_etl = Some c' \<and> committed c' = w \<and> txn c' = w"
    using s [THEN conjunct2, THEN conjunct2, THEN conjunct2, THEN conjunct2, THEN conjunct2,
             rule_format, OF run_etl_two_co2_facts] .
  from load_fails a etl_fails load_succeeds b run_etl_two_co2_facts c show ?thesis
    by (intro conjI)
qed

section \<open>Upsert and re-runs: results\<close>

lemma key_apply_batch:
  "key (foldl (\<lambda>x r. if key x = key r then r else x) x rows) = key x"
  by (induction rows arbitrary: x) simp_all

lemma upsert_row_map_keys:
  "map key (upsert_row key r t) =
     (if key r \<in> key ` set t then map key t else map key t @ [key r])"
  by (simp add: upsert_row_def comp_def)

lemma upsert_row_keys: "key ` set (upsert_row key r t) = insert (key r) (key ` set t)"
proof -
  have "key ` set (upsert_row key r t) = set (map key (upsert_row key r t))" by simp
  also have "\<dots> = insert (key r) (key ` set t)"
    by (simp only: upsert_row_map_keys) auto
  finally show ?thesis .
qed

lemma upsert_row_cases:
  assumes "y \<in> set (upsert_row key r t)"
  shows "y = r \<or> (y \<in> set t \<and> key y \<noteq> key r)"
proof (cases "key r \<in> key ` set t")
  case True
  with assms show ?thesis by (auto simp: upsert_row_def)
next
  case False
  with assms have "y = r \<or> y \<in> set t" by (auto simp: upsert_row_def)
  moreover have "y \<in> set t \<Longrightarrow> key y \<noteq> key r" using False by (metis imageI)
  ultimately show ?thesis by auto
qed

lemma upsert_facts_snoc:
  "upsert_facts key (rows @ [r]) t = upsert_row key r (upsert_facts key rows t)"
  by (simp add: upsert_facts_def)

lemma upsert_facts_Cons:
  "upsert_facts key (r # rows) t = upsert_facts key rows (upsert_row key r t)"
  by (simp add: upsert_facts_def)

lemma upsert_facts_keys:
  "key ` set (upsert_facts key rows t) = key ` set rows \<union> key ` set t"
  by (induction rows arbitrary: t) (auto simp: upsert_facts_Cons upsert_row_keys upsert_facts_def)

lemma upsert_facts_present:
  "key ` set rows \<subseteq> key ` set t \<Longrightarrow>
   upsert_facts key rows t = map (\<lambda>x. foldl (\<lambda>x r. if key x = key r then r else x) x rows) t"
proof (induction rows arbitrary: t)
  case Nil
  then show ?case by (simp add: upsert_facts_def)
next
  case (Cons r rows)
  let ?t' = "map (\<lambda>x. if key x = key r then r else x) t"
  have r: "upsert_row key r t = ?t'" using Cons.prems by (simp add: upsert_row_def)
  have "map key ?t' = map key t" by simp
  then have "set (map key ?t') = set (map key t)" by (rule arg_cong)
  then have "key ` set ?t' = key ` set t" by (simp only: set_map)
  then have "key ` set rows \<subseteq> key ` set ?t'" using Cons.prems by simp
  then have "upsert_facts key rows ?t' =
      map (\<lambda>x. foldl (\<lambda>x r. if key x = key r then r else x) x rows) ?t'"
    by (rule Cons.IH)
  then show ?case by (simp add: upsert_facts_Cons r comp_def)
qed

lemma upsert_facts_stable:
  "y \<in> set (upsert_facts key rows t) \<Longrightarrow>
   foldl (\<lambda>x r. if key x = key r then r else x) y rows = y"
proof (induction rows arbitrary: y rule: rev_induct)
  case Nil
  then show ?case by simp
next
  case (snoc r rows)
  from snoc.prems have "y = r \<or> (y \<in> set (upsert_facts key rows t) \<and> key y \<noteq> key r)"
    by (simp only: upsert_facts_snoc) (rule upsert_row_cases)
  then show ?case
  proof
    assume "y = r"
    then show ?thesis by (simp add: key_apply_batch)
  next
    assume a: "y \<in> set (upsert_facts key rows t) \<and> key y \<noteq> key r"
    then have "foldl (\<lambda>x r. if key x = key r then r else x) y rows = y" using snoc.IH by blast
    with a show ?thesis by simp
  qed
qed

lemma upsert_facts_idempotent:
  "upsert_facts key rows (upsert_facts key rows t) = upsert_facts key rows t"
proof -
  have "key ` set rows \<subseteq> key ` set (upsert_facts key rows t)"
    by (simp add: upsert_facts_keys)
  then have "upsert_facts key rows (upsert_facts key rows t) =
      map (\<lambda>x. foldl (\<lambda>x r. if key x = key r then r else x) x rows) (upsert_facts key rows t)"
    by (rule upsert_facts_present)
  also have "\<dots> = upsert_facts key rows t"
    by (rule map_idI) (rule upsert_facts_stable)
  finally show ?thesis .
qed

lemma upsert_row_distinct:
  "distinct (map key t) \<Longrightarrow> distinct (map key (upsert_row key r t))"
  by (simp add: upsert_row_map_keys)

lemma upsert_facts_distinct:
  "distinct (map key t) \<Longrightarrow> distinct (map key (upsert_facts key rows t))"
  by (induction rows arbitrary: t) (simp_all add: upsert_facts_Cons upsert_row_distinct upsert_facts_def)

lemma upsert_facts_replaces:
  "y \<in> set (upsert_facts key rows t) \<Longrightarrow> key y \<in> key ` set rows \<Longrightarrow> y \<in> set rows"
proof (induction rows arbitrary: y rule: rev_induct)
  case Nil
  then show ?case by simp
next
  case (snoc r rows)
  from snoc.prems(1) have "y = r \<or> (y \<in> set (upsert_facts key rows t) \<and> key y \<noteq> key r)"
    by (simp only: upsert_facts_snoc) (rule upsert_row_cases)
  then show ?case
  proof
    assume "y = r" then show ?thesis by simp
  next
    assume a: "y \<in> set (upsert_facts key rows t) \<and> key y \<noteq> key r"
    with snoc.prems(2) have "key y \<in> key ` set rows" by auto
    with a snoc.IH have "y \<in> set rows" by blast
    then show ?thesis by simp
  qed
qed

lemma core_run_etl_pipeline_twice:
  "core_run_etl_pipeline facts_of w = Inr (w', msg) \<Longrightarrow>
   core_run_etl_pipeline facts_of w' = Inr (w', msg)"
  by (auto simp: core_run_etl_pipeline_def upsert_facts_idempotent split: prod.splits)

lemma core_run_etl_pipeline_total:
  "\<exists>w'. core_run_etl_pipeline facts_of w = Inr (w', ''ETL pipeline completed'')"
  by (auto simp: core_run_etl_pipeline_def split: prod.splits)

lemma core_run_etl_pipeline_distinct:
  assumes "core_run_etl_pipeline facts_of w = Inr (w', msg)"
  shows "(distinct (map co2_fact_key (fact_co2_emissions w)) \<longrightarrow>
            distinct (map co2_fact_key (fact_co2_emissions w'))) \<and>
         (distinct (map prod_fact_key (fact_energy_production w)) \<longrightarrow>
            distinct (map prod_fact_key (fact_energy_production w'))) \<and>
         (distinct (map prices_fact_key (fact_electricity_prices w)) \<longrightarrow>
            distinct (map prices_fact_key (fact_electricity_prices w')))"
  using assms
  by (auto simp: core_run_etl_pipeline_def upsert_facts_distinct split: prod.splits)

text \<open>
  Claim C7. Running the ETL twice over the same raw staging is idempotent: the second run
  returns the same result and leaves the connection, and with it every fact table, exactly
  as the first run left it. The upsert replaces the row of a key and inserts only new keys,
  so fact tables whose keys were unique before the run have unique keys after it.
\<close>

theorem run_etl_pipeline_idempotent:
  assumes "run_etl_pipeline (core_run_etl_pipeline facts_of) (Some c) = (result, conn1)"
  shows "run_etl_pipeline (core_run_etl_pipeline facts_of) conn1 = (result, conn1) \<and>
         (\<exists>c1. conn1 = Some c1 \<and> txn c1 = committed c1 \<and>
            (distinct (map co2_fact_key (fact_co2_emissions (txn c))) \<longrightarrow>
               distinct (map co2_fact_key (fact_co2_emissions (committed c1)))) \<and>
            (distinct (map prod_fact_key (fact_energy_production (txn c))) \<longrightarrow>
               distinct (map prod_fact_key (fact_energy_production (committed c1)))) \<and>
            (distinct (map prices_fact_key (fact_electricity_prices (txn c))) \<longrightarrow>
               distinct (map prices_fact_key (fact_electricity_prices (committed c1)))))"
proof -
  obtain w where w: "core_run_etl_pipeline facts_of (txn c) = Inr (w, ''ETL pipeline completed'')"
    using core_run_etl_pipeline_total by blast
  let ?c1 = "commit (c\<lparr>txn := w\<rparr>)"
  from assms w have r: "result = Inr ''ETL pipeline completed''" and c1: "conn1 = Some ?c1"
    by (simp_all add: run_etl_pipeline_def)
  have t: "txn ?c1 = w" "committed ?c1 = w" by (simp_all add: commit_def)
  have again: "core_run_etl_pipeline facts_of (txn ?c1) = Inr (w, ''ETL pipeline completed'')"
    using w by (simp only: t) (rule core_run_etl_pipeline_twice)
  have same: "commit (?c1\<lparr>txn := w\<rparr>) = ?c1" by (simp add: commit_def)
  have "run_etl_pipeline (core_run_etl_pipeline facts_of) conn1 = (result, conn1)"
    by (simp add: run_etl_pipeline_def c1 again r same del: core_run_etl_pipeline_def)
  moreover have "\<exists>c1. conn1 = Some c1 \<and> txn c1 = committed c1 \<and>
            (distinct (map co2_fact_key (fact_co2_emissions (txn c))) \<longrightarrow>
               distinct (map co2_fact_key (fact_co2_emissions (committed c1)))) \<and>
            (distinct (map prod_fact_key (fact_energy_production (txn c))) \<longrightarrow>
               distinct (map prod_fact_key (fact_energy_production (committed c1)))) \<and>
            (distinct (map prices_fact_key (fact_electricity_prices (txn c))) \<longrightarrow>
               distinct (map prices_fact_key (fact_electricity_prices (committed c1))))"
    using core_run_etl_pipeline_distinct [OF w] c1 t by auto
  ultimately show ?thesis by (rule conjI)
qed

text \<open>
  An Aggregator that emits two CO2 facts for one key: the first run stores one row (the
  later value), the second run changes nothing.
\<close>

theorem run_etl_pipeline_idempotent_witness:
  "run_etl_pipeline (core_run_etl_pipeline two_co2_facts) (Some connection_clean) =
     (Inr ''ETL pipeline completed'', connected warehouse_after_etl) \<and>
   run_etl_pipeline (core_run_etl_pipeline two_co2_facts) (connected warehouse_after_etl) =
     (Inr ''ETL pipeline completed'', connected warehouse_after_etl) \<and>
   distinct (map co2_fact_key (fact_co2_emissions (txn connection_clean))) \<and>
   distinct (map co2_fact_key (fact_co2_emissions warehouse_after_etl))"
proof -
  note inst = run_etl_pipeline_idempotent [OF run_etl_two_co2_facts]
  have d0: "distinct (map co2_fact_key (fact_co2_emissions (txn connection_clean)))"
    by (simp add: connection_clean_def empty_warehouse_def)
  from inst obtain c1 where c1: "connected warehouse_after_etl = Some c1"
    and d: "distinct (map co2_fact_key (fact_co2_emissions (txn connection_clean))) \<longrightarrow>
            distinct (map co2_fact_key (fact_co2_emissions (committed c1)))"
    by auto
  from c1 have "committed c1 = warehouse_after_etl" by (auto simp: connected_def)
  with d d0 have d1: "distinct (map co2_fact_key (fact_co2_emissions warehouse_after_etl))"
    by simp
  from run_etl_two_co2_facts inst [THEN conjunct1] d0 d1 show ?thesis by (intro conjI)
qed

section \<open>Extraction: results\<close>

lemma session_get_requests: "requests (snd (session_get rq w)) = requests w @ [rq]"
  by (simp add: session_get_def split: list.splits)

lemma session_get_files: "files (snd (session_get rq w)) = files w"
  by (simp add: session_get_def split: list.splits)

lemma extract_dataset_requests:
  assumes "extract_dataset dataset csv_name output_dir start_date end_date w = (df, w')"
  shows "requests w' = requests w @ [dataset_request dataset start_date end_date]"
  using session_get_requests [of "dataset_request dataset start_date end_date" w] assms
  by (auto simp: extract_dataset_def split: prod.splits sum.splits if_splits)

lemma get_dataset_list_requests:
  assumes "get_dataset_list output_dir w = (datasets, w')"
  shows "requests w' = requests w @ [meta_request]"
  using session_get_requests [of meta_request w] assms
  by (auto simp: get_dataset_list_def split: prod.splits sum.splits)

lemma run_full_extraction_requests:
  "requests (snd (run_full_extraction now output_dir start_date end_date w)) =
     requests w @ [meta_request,
                   dataset_request ''ElectricityBalance'' start_date end_date,
                   dataset_request ''CO2Emis'' start_date end_date,
                   dataset_request ''ProductionConsumptionSettlement'' start_date end_date,
                   dataset_request ''Elspotprices'' start_date end_date]"
proof -
  obtain d w0 where a: "get_dataset_list output_dir w = (d, w0)" by (cases "get_dataset_list output_dir w")
  obtain e w1 where b: "extract_electricity_data output_dir start_date end_date w0 = (e, w1)"
    by (cases "extract_electricity_data output_dir start_date end_date w0")
  obtain c w2 where c: "extract_co2_emissions_data output_dir start_date end_date w1 = (c, w2)"
    by (cases "extract_co2_emissions_data output_dir start_date end_date w1")
  obtain r w3 where r: "extract_renewable_energy_data output_dir start_date end_date w2 = (r, w3)"
    by (cases "extract_renewable_energy_data output_dir start_date end_date w2")
  obtain p w4 where p: "extract_electricity_prices output_dir start_date end_date w3 = (p, w4)"
    by (cases "extract_electricity_prices output_dir start_date end_date w3")
  have "requests w0 = requests w @ [meta_request]"
    using a by (rule get_dataset_list_requests)
  moreover have "requests w1 = requests w0 @ [dataset_request ''ElectricityBalance'' start_date end_date]"
    using b [unfolded extract_electricity_data_def] by (rule extract_dataset_requests)
  moreover have "requests w2 = requests w1 @ [dataset_request ''CO2Emis'' start_date end_date]"
    using c [unfolded extract_co2_emissions_data_def] by (rule extract_dataset_requests)
  moreover have "requests w3 = requests w2 @ [dataset_request ''ProductionConsumptionSettlement'' start_date end_date]"
    using r [unfolded extract_renewable_energy_data_def] by (rule extract_dataset_requests)
  moreover have "requests w4 = requests w3 @ [dataset_request ''Elspotprices'' start_date end_date]"
    using p [unfolded extract_electricity_prices_def] by (rule extract_dataset_requests)
  ultimately have "requests w4 = requests w @ [meta_request,
                   dataset_request ''ElectricityBalance'' start_date end_date,
                   dataset_request ''CO2Emis'' start_date end_date,
                   dataset_request ''ProductionConsumptionSettlement'' start_date end_date,
                   dataset_request ''Elspotprices'' start_date end_date]"
    by simp
  then show ?thesis
    by (simp add: run_full_extraction_def Let_def a b c r p)
qed





lemma run_full_extraction_unfold:
  "run_full_extraction now output_dir start_date end_date w =
     (let r0 = get_dataset_list output_dir w;
          r1 = extract_electricity_data output_dir start_date end_date (snd r0);
          r2 = extract_co2_emissions_data output_dir start_date end_date (snd r1);
          r3 = extract_renewable_energy_data output_dir start_date end_date (snd r2);
          r4 = extract_electricity_prices output_dir start_date end_date (snd r3);
          summary =
            \<lparr>extraction_date = now,
             date_range = start_date @ '' to '' @ end_date,
             electricity_balance = length (fst r1),
             co2_emissions = length (fst r2),
             renewable_energy = length (fst r3),
             electricity_prices = length (fst r4),
             total_records = length (fst r1) + length (fst r2) + length (fst r3) +
                             length (fst r4)\<rparr>
      in (summary,
          (snd r4)\<lparr>files := (files (snd r4))(path_join output_dir ''extraction_summary.json'' \<mapsto>
                                   SummaryJson summary)\<rparr>))"
  by (simp add: run_full_extraction_def Let_def split_beta)











text \<open>
  Claim C8, as the code has it. The window is not validated: for every pair of date
  strings, in whatever order, the run sends its five requests with these dates as
  parameters, and returns and saves a summary for the range.
\<close>

theorem run_full_extraction_any_window:
  "requests (snd (run_full_extraction now output_dir start_date end_date w)) =
     requests w @ [meta_request,
                   dataset_request ''ElectricityBalance'' start_date end_date,
                   dataset_request ''CO2Emis'' start_date end_date,
                   dataset_request ''ProductionConsumptionSettlement'' start_date end_date,
                   dataset_request ''Elspotprices'' start_date end_date] \<and>
   date_range (fst (run_full_extraction now output_dir start_date end_date w)) =
     start_date @ '' to '' @ end_date \<and>
   files (snd (run_full_extraction now output_dir start_date end_date w))
     (path_join output_dir ''extraction_summary.json'') =
     Some (SummaryJson (fst (run_full_extraction now output_dir start_date end_date w)))"
proof (intro conjI)
  show "requests (snd (run_full_extraction now output_dir start_date end_date w)) =
     requests w @ [meta_request,
                   dataset_request ''ElectricityBalance'' start_date end_date,
                   dataset_request ''CO2Emis'' start_date end_date,
                   dataset_request ''ProductionConsumptionSettlement'' start_date end_date,
                   dataset_request ''Elspotprices'' start_date end_date]"
    by (rule run_full_extraction_requests)
  show "date_range (fst (run_full_extraction now output_dir start_date end_date w)) =
     start_date @ '' to '' @ end_date"
    by (simp add: run_full_extraction_unfold Let_def)
  show "files (snd (run_full_extraction now output_dir start_date end_date w))
     (path_join output_dir ''extraction_summary.json'') =
     Some (SummaryJson (fst (run_full_extraction now output_dir start_date end_date w)))"
    by (simp add: run_full_extraction_unfold Let_def)
qed

text \<open>
  Claim C8 as stated: a window with \<open>start_date > end_date\<close> fails with
  \<open>ConfigurationError\<close> before any I/O. From 2024-12-31 to 2020-01-01 the run sends all
  five requests and returns its summary.
\<close>

theorem inverted_window_is_extracted:
  "(''2020-01-01'' :: string) < ''2024-12-31'' \<and>
   requests (snd (run_full_extraction ''2025-07-10T12:00:00'' ''raw_data'' ''2024-12-31''
                    ''2020-01-01'' world_unreachable)) =
     [meta_request,
      dataset_request ''ElectricityBalance'' ''2024-12-31'' ''2020-01-01'',
      dataset_request ''CO2Emis'' ''2024-12-31'' ''2020-01-01'',
      dataset_request ''ProductionConsumptionSettlement'' ''2024-12-31'' ''2020-01-01'',
      dataset_request ''Elspotprices'' ''2024-12-31'' ''2020-01-01''] \<and>
   fst (run_full_extraction ''2025-07-10T12:00:00'' ''raw_data'' ''2024-12-31''
          ''2020-01-01'' world_unreachable) =
     \<lparr>extraction_date = ''2025-07-10T12:00:00'',
      date_range = ''2024-12-31 to 2020-01-01'',
      electricity_balance = 0, co2_emissions = 0, renewable_energy = 0,
      electricity_prices = 0, total_records = 0\<rparr>"
proof (intro conjI)
  show "(''2020-01-01'' :: string) < ''2024-12-31''" by simp
  show "requests (snd (run_full_extraction ''2025-07-10T12:00:00'' ''raw_data'' ''2024-12-31''
                    ''2020-01-01'' world_unreachable)) =
     [meta_request,
      dataset_request ''ElectricityBalance'' ''2024-12-31'' ''2020-01-01'',
      dataset_request ''CO2Emis'' ''2024-12-31'' ''2020-01-01'',
      dataset_request ''ProductionConsumptionSettlement'' ''2024-12-31'' ''2020-01-01'',
      dataset_request ''Elspotprices'' ''2024-12-31'' ''2020-01-01'']"
    by (simp add: run_full_extraction_requests world_unreachable_def)
  show "fst (run_full_extraction ''2025-07-10T12:00:00'' ''raw_data'' ''2024-12-31''
          ''2020-01-01'' world_unreachable) =
     \<lparr>extraction_date = ''2025-07-10T12:00:00'',
      date_range = ''2024-12-31 to 2020-01-01'',
      electricity_balance = 0, co2_emissions = 0, renewable_energy = 0,
      electricity_prices = 0, total_records = 0\<rparr>"
    by (simp add: run_full_extraction_unfold Let_def world_unreachable_def get_dataset_list_def
          extract_electricity_data_def extract_co2_emissions_data_def
          extract_renewable_energy_data_def extract_electricity_prices_def
          extract_dataset_def session_get_def)
qed

section \<open>High-price events: results\<close>

lemma quantile_position:
  assumes "0 \<le> q" "q \<le> 1" "0 < n"
  shows "nat \<lfloor>real (n - 1) * q\<rfloor> \<le> n - 1"
proof -
  have "real (n - 1) * q \<le> real (n - 1)" using assms by (simp add: mult_left_le)
  then have "\<lfloor>real (n - 1) * q\<rfloor> \<le> int (n - 1)" by linarith
  then show ?thesis by linarith
qed

lemma quantile_between:
  assumes q: "0 \<le> q" "q \<le> 1" and ne: "vals \<noteq> []"
  shows "\<exists>v. quantile q vals = Fin v \<and>
             sort vals ! (nat \<lfloor>real (length vals - 1) * q\<rfloor>) \<le> v"
proof -
  let ?a = "sort vals"
  let ?n = "length vals"
  let ?h = "real (?n - 1) * q"
  let ?lo = "nat \<lfloor>?h\<rfloor>"
  let ?hi = "min (?lo + 1) (?n - 1)"
  have n: "0 < ?n" using ne by simp
  have lo: "?lo \<le> ?n - 1" using q n by (rule quantile_position)
  have lohi: "?lo \<le> ?hi" using lo by simp
  have hilt: "?hi < length ?a"
  proof -
    have "?hi \<le> ?n - 1" by (rule min.cobounded2)
    with n have "?hi < ?n" by linarith
    then show ?thesis by (simp only: length_sort)
  qed
  have srt: "sorted ?a" by (rule sorted_sort)
  have le: "?a ! ?lo \<le> ?a ! ?hi"
    using srt lohi hilt by (rule sorted_nth_mono)
  have h0: "0 \<le> ?h" using q by simp
  then have "real ?lo \<le> ?h" by (simp add: of_nat_nat)
  then have "0 \<le> (?h - real ?lo) * (?a ! ?hi - ?a ! ?lo)" using le by simp
  then have "?a ! ?lo \<le> ?a ! ?lo + (?h - real ?lo) * (?a ! ?hi - ?a ! ?lo)" by simp
  moreover have "quantile q vals = Fin (?a ! ?lo + (?h - real ?lo) * (?a ! ?hi - ?a ! ?lo))"
    using ne by (simp add: quantile_def Let_def)
  ultimately show ?thesis by blast
qed

lemma length_filter_insort:
  "length (filter P (insort x xs)) = length (filter P (x # xs))"
  by (induction xs) auto

lemma length_filter_sort:
  "length (filter P (sort xs)) = length (filter P xs)"
  by (induction xs) (simp_all add: length_filter_insort)

lemma sorted_filter_above:
  assumes "sorted (a :: real list)" "i < length a" "a ! i \<le> v"
  shows "length (filter (\<lambda>x. v < x) a) \<le> length a - (i + 1)"
proof -
  have a: "a = take (i + 1) a @ drop (i + 1) a" by simp
  have "filter (\<lambda>x. v < x) (take (i + 1) a) = []"
  proof -
    have "\<forall>x \<in> set (take (i + 1) a). x \<le> v"
    proof
      fix x assume "x \<in> set (take (i + 1) a)"
      then obtain j where j: "j < i + 1" "j < length a" "x = a ! j"
        by (auto simp: in_set_conv_nth)
      then have "a ! j \<le> a ! i" using assms by (simp add: sorted_nth_mono)
      with j assms show "x \<le> v" by simp
    qed
    then show ?thesis by (auto simp: filter_empty_conv)
  qed
  then have "filter (\<lambda>x. v < x) a = filter (\<lambda>x. v < x) (drop (i + 1) a)"
    by (metis a filter_append append_Nil)
  then have "length (filter (\<lambda>x. v < x) a) \<le> length (drop (i + 1) a)"
    by (metis length_filter_le)
  then show ?thesis by simp
qed

lemma quantile_count_above:
  assumes q: "0 \<le> q" "q \<le> 1" and ne: "vals \<noteq> []" and v: "quantile q vals = Fin v"
  shows "length (filter (\<lambda>x. v < x) vals) \<le> length vals - (nat \<lfloor>real (length vals - 1) * q\<rfloor> + 1)"
proof -
  let ?lo = "nat \<lfloor>real (length vals - 1) * q\<rfloor>"
  from quantile_between [OF q ne] v have le: "sort vals ! ?lo \<le> v" by auto
  have "?lo \<le> length vals - 1" using q ne by (intro quantile_position) simp_all
  then have lt: "?lo < length (sort vals)" using ne by (cases vals) simp_all
  have "length (filter (\<lambda>x. v < x) (sort vals)) \<le> length (sort vals) - (?lo + 1)"
    using sorted_sort lt le by (rule sorted_filter_above)
  then show ?thesis by (simp add: length_filter_sort)
qed


lemma quantile_Fin_or_NaN: "quantile q vals = NaN \<or> (\<exists>v. quantile q vals = Fin v)"
  by (simp add: quantile_def Let_def)

lemma fgt_Fin_iff: "fgt (Fin p) Q \<longleftrightarrow> (\<exists>v. Q = Fin v \<and> v < p) \<or> Q = NegInf"
  by (cases Q) simp_all

lemma finite_cells_Cons:
  "finite_cells (x # xs) = (case x of Fin v \<Rightarrow> [v] | _ \<Rightarrow> []) @ finite_cells xs"
  by (simp add: finite_cells_def)

lemma length_filter_finite_cells:
  "length (filter (\<lambda>r. \<exists>p. SpotPriceDKK r = Fin p \<and> v < p) rows) =
   length (filter (\<lambda>x. v < x) (finite_cells (map SpotPriceDKK rows)))"
proof (induction rows)
  case Nil
  show ?case by (simp add: finite_cells_def)
next
  case (Cons r rows)
  show ?case
    by (cases "SpotPriceDKK r") (simp_all add: finite_cells_Cons Cons.IH)
qed

lemma above_Fin:
  "(\<exists>p v. c = Fin p \<and> Fin q = Fin v \<and> v < p) \<longleftrightarrow> (\<exists>p. c = Fin p \<and> q < p)"
  by auto

lemma prices_two_areas_cells:
  "finite_cells (map SpotPriceDKK prices_two_areas) = [15 / 2, 15, 75, 150]"
  by (simp add: prices_two_areas_def price_at_def finite_cells_def)

lemma prices_two_areas_quantile:
  "quantile (95 / 100) (finite_cells (map SpotPriceDKK prices_two_areas)) = Fin (555 / 4)"
  by (simp add: prices_two_areas_cells quantile_def Let_def)

text \<open>
  Claim C9, as the code has it. The price-spike detection of the sources marks the rows
  whose \<open>SpotPriceDKK\<close> is strictly above the 95th percentile (linear interpolation) of
  all \<open>SpotPriceDKK\<close> values of the frame, over all price areas and the whole period: no
  trailing window, no baseline per area and no multiplier. It is a percentile rule: with
  \<open>n\<close> prices, at most \<open>n - 1 - floor (0.95 * (n - 1))\<close> rows are marked.
\<close>

theorem high_prices_above_95th_percentile:
  assumes fin: "\<forall>r \<in> set df. SpotPriceDKK r \<noteq> PosInf \<and> SpotPriceDKK r \<noteq> NegInf"
  shows "high_prices_dkk df =
           filter (\<lambda>r. \<exists>p v. SpotPriceDKK r = Fin p \<and>
                          quantile (95 / 100) (finite_cells (map SpotPriceDKK df)) = Fin v \<and> v < p) df \<and>
         length (high_prices_dkk df) \<le>
           length (finite_cells (map SpotPriceDKK df)) -
           (nat \<lfloor>real (length (finite_cells (map SpotPriceDKK df)) - 1) * (95 / 100)\<rfloor> + 1)"
proof -
  let ?vals = "finite_cells (map SpotPriceDKK df)"
  let ?Q = "quantile (95 / 100) ?vals"
  have flag: "fgt (SpotPriceDKK r) ?Q \<longleftrightarrow>
              (\<exists>p v. SpotPriceDKK r = Fin p \<and> ?Q = Fin v \<and> v < p)" if "r \<in> set df" for r
  proof (cases "SpotPriceDKK r")
    case (Fin p)
    have "?Q \<noteq> NegInf" using quantile_Fin_or_NaN [of "95 / 100" ?vals] by auto
    then show ?thesis by (simp add: Fin fgt_Fin_iff)
  next
    case PosInf
    with fin that show ?thesis by blast
  next
    case NegInf
    with fin that show ?thesis by blast
  next
    case NaN
    then show ?thesis by simp
  qed
  have eq: "high_prices_dkk df =
           filter (\<lambda>r. \<exists>p v. SpotPriceDKK r = Fin p \<and> ?Q = Fin v \<and> v < p) df"
    unfolding high_prices_dkk_def by (rule filter_cong [OF refl]) (rule flag)
  have bound: "length (high_prices_dkk df) \<le>
           length ?vals - (nat \<lfloor>real (length ?vals - 1) * (95 / 100)\<rfloor> + 1)"
  proof (cases "?vals = []")
    case True
    then have "?Q = NaN" by (simp add: quantile_def)
    then have "high_prices_dkk df = []" by (simp add: eq)
    then show ?thesis by simp
  next
    case False
    then obtain v where v: "?Q = Fin v"
      using quantile_between [of "95 / 100" ?vals] by auto
    have "high_prices_dkk df = filter (\<lambda>r. \<exists>p. SpotPriceDKK r = Fin p \<and> v < p) df"
      unfolding eq v by simp
    then have "length (high_prices_dkk df) = length (filter (\<lambda>x. v < x) ?vals)"
      by (simp add: length_filter_finite_cells)
    also have "\<dots> \<le> length ?vals - (nat \<lfloor>real (length ?vals - 1) * (95 / 100)\<rfloor> + 1)"
      using False v by (intro quantile_count_above) simp_all
    finally show ?thesis .
  qed
  from eq bound show ?thesis by (rule conjI)
qed

text \<open>
  Of four prices (7.5, 15, 75 and 150 DKK in two areas) the percentile is 138.75 and one
  row is marked.
\<close>

theorem high_prices_above_95th_percentile_witness:
  "high_prices_dkk prices_two_areas = [price_at 3600 ''DK2'' 20] \<and>
   length (high_prices_dkk prices_two_areas) \<le> 1"
proof -
  have fin: "\<forall>r \<in> set prices_two_areas. SpotPriceDKK r \<noteq> PosInf \<and> SpotPriceDKK r \<noteq> NegInf"
    by (simp add: prices_two_areas_def price_at_def)
  note inst = high_prices_above_95th_percentile [OF fin]
  have "high_prices_dkk prices_two_areas =
          filter (\<lambda>r. \<exists>p. SpotPriceDKK r = Fin p \<and> 555 / 4 < p) prices_two_areas"
    by (simp only: inst [THEN conjunct1] prices_two_areas_quantile above_Fin)
  then have a: "high_prices_dkk prices_two_areas = [price_at 3600 ''DK2'' 20]"
    by (simp add: prices_two_areas_def price_at_def)
  have b: "length (high_prices_dkk prices_two_areas) \<le> 1"
    using inst [THEN conjunct2] by (simp add: prices_two_areas_cells)
  from a b show ?thesis by (rule conjI)
qed

text \<open>
  Claim C9 as stated: the flag is \<open>spot_price_eur > rolling_baseline * spike_multiplier\<close>.
  With a window of 30 days and a multiplier of 3, the row that the code marks (20 EUR in
  DK2, after 10 EUR in the hour before) is no spike: its baseline is 15 EUR.
\<close>

theorem high_price_is_not_a_spike:
  "high_prices_dkk prices_two_areas = [price_at 3600 ''DK2'' 20] \<and>
   spec_is_price_spike (30 * 86400) 3 prices_two_areas (price_at 3600 ''DK2'' 20) = False"
proof -
  have a: "high_prices_dkk prices_two_areas = [price_at 3600 ''DK2'' 20]"
    by (simp only: high_prices_dkk_def prices_two_areas_quantile)
       (simp add: prices_two_areas_def price_at_def)
  have b: "spec_is_price_spike (30 * 86400) 3 prices_two_areas (price_at 3600 ''DK2'' 20) = False"
    by (simp add: spec_is_price_spike_def spec_rolling_baseline_def prices_two_areas_def
          price_at_def mean_skipna_def sum_skipna_def dropna_cells_def)
  from a b show ?thesis by (rule conjI)
qed

text \<open>
  The same holds for every window and multiplier: the two rows of the second hour have the
  same ratio to their area's baseline, so the specified rule flags both or neither, while
  the code marks the DK2 row and not the DK1 row.
\<close>

lemma spec_spike_same_in_both_areas:
  "spec_is_price_spike window m prices_two_areas (price_at 3600 ''DK2'' 20) =
   spec_is_price_spike window m prices_two_areas (price_at 3600 ''DK1'' 2)"
proof -
  consider "window \<le> 0" | "0 < window" "window \<le> 3600" | "3600 < window" by linarith
  then show ?thesis
  proof cases
    case 1
    then show ?thesis
      by (simp add: spec_is_price_spike_def spec_rolling_baseline_def prices_two_areas_def
            price_at_def mean_skipna_def sum_skipna_def dropna_cells_def)
  next
    case 2
    then show ?thesis
      by (simp add: spec_is_price_spike_def spec_rolling_baseline_def prices_two_areas_def
            price_at_def mean_skipna_def sum_skipna_def dropna_cells_def)
  next
    case 3
    then show ?thesis
      by (simp add: spec_is_price_spike_def spec_rolling_baseline_def prices_two_areas_def
            price_at_def mean_skipna_def sum_skipna_def dropna_cells_def)
  qed
qed

lemma no_window_and_multiplier_give_high_prices:
  "\<not> (\<exists>window m. \<forall>r \<in> set prices_two_areas.
         (r \<in> set (high_prices_dkk prices_two_areas)) = spec_is_price_spike window m prices_two_areas r)"
proof
  assume "\<exists>window m. \<forall>r \<in> set prices_two_areas.
         (r \<in> set (high_prices_dkk prices_two_areas)) = spec_is_price_spike window m prices_two_areas r"
  then obtain window m where a: "\<And>r. r \<in> set prices_two_areas \<Longrightarrow>
         (r \<in> set (high_prices_dkk prices_two_areas)) = spec_is_price_spike window m prices_two_areas r"
    by blast
  have h: "high_prices_dkk prices_two_areas = [price_at 3600 ''DK2'' 20]"
    by (simp only: high_prices_dkk_def prices_two_areas_quantile)
       (simp add: prices_two_areas_def price_at_def)
  have "price_at 3600 ''DK2'' 20 \<in> set prices_two_areas" by (simp add: prices_two_areas_def)
  from a [OF this] have s2: "spec_is_price_spike window m prices_two_areas (price_at 3600 ''DK2'' 20)"
    by (simp add: h)
  have "price_at 3600 ''DK1'' 2 \<in> set prices_two_areas" by (simp add: prices_two_areas_def)
  from a [OF this] have s1: "\<not> spec_is_price_spike window m prices_two_areas (price_at 3600 ''DK1'' 2)"
    by (simp add: h price_at_def)
  from s1 s2 show False by (simp add: spec_spike_same_in_both_areas)
qed

end
